theory Spec2Isabelle
  imports Main "HOL-Library.AList"
begin

section \<open>JavaScript strings and numbers used by the provider\<close>

text \<open>
  The provider addresses collections and requests by strings such as \<open>2/0/1\<close>. It takes
  them apart with \<open>split("/")\<close>, \<open>slice\<close>, \<open>join("/")\<close>, \<open>parseInt\<close>, \<open>Number\<close> and
  \<open>startsWith\<close>, and builds them with \<open>toString\<close> and template literals. A JavaScript
  number is modelled as \<open>int option\<close>, \<open>None\<close> standing for \<open>NaN\<close>; index arithmetic is
  exact (the indices are far below \<open>2^53\<close>).
\<close>

fun split_str :: "char \<Rightarrow> string \<Rightarrow> string list" where
  "split_str sep [] = [[]]"
| "split_str sep (c # cs) =
     (if c = sep then [] # split_str sep cs
      else (case split_str sep cs of
              [] \<Rightarrow> [[c]]
            | p # ps \<Rightarrow> (c # p) # ps))"

fun join_str :: "string \<Rightarrow> string list \<Rightarrow> string" where
  "join_str sep [] = []"
| "join_str sep [p] = p"
| "join_str sep (p # q # ps) = p @ sep @ join_str sep (q # ps)"

definition startsWith :: "string \<Rightarrow> string \<Rightarrow> bool" where
  \<comment> \<open>\<open>s.startsWith(p)\<close>\<close>
  "startsWith s p = (take (length p) s = p)"

fun string_of_nat :: "nat \<Rightarrow> string" where
  "string_of_nat n =
     (if n < 10 then [''0123456789'' ! n]
      else string_of_nat (n div 10) @ [''0123456789'' ! (n mod 10)])"

declare string_of_nat.simps [simp del]

fun decimal_digits :: "nat \<Rightarrow> nat list" where
  \<comment> \<open>the decimal digits of a number, most significant first\<close>
  "decimal_digits n = (if n < 10 then [n] else decimal_digits (n div 10) @ [n mod 10])"

declare decimal_digits.simps [simp del]

definition show_num :: "int option \<Rightarrow> string" where
  \<comment> \<open>a number inside a template literal\<close>
  "show_num v =
     (case v of
        None \<Rightarrow> ''NaN''
      | Some i \<Rightarrow> if i < 0 then CHR ''-'' # string_of_nat (nat (- i)) else string_of_nat (nat i))"

definition is_ws :: "char \<Rightarrow> bool" where
  "is_ws c = (c = CHR '' '' \<or> c = CHR 0x09 \<or> c = CHR 0x0A \<or> c = CHR 0x0B \<or> c = CHR 0x0C \<or> c = CHR 0x0D)"

fun findIndex :: "('a \<Rightarrow> bool) \<Rightarrow> 'a list \<Rightarrow> nat option" where
  \<comment> \<open>\<open>Array.prototype.findIndex\<close>; \<open>None\<close> is its \<open>-1\<close>\<close>
  "findIndex P [] = None"
| "findIndex P (x # xs) =
     (if P x then Some 0 else map_option Suc (findIndex P xs))"

definition digit_value :: "char \<Rightarrow> nat option" where
  \<comment> \<open>the value of a digit, letters standing for ten to fifteen in either case\<close>
  "digit_value c =
     (case findIndex (\<lambda>d. d = c) ''0123456789abcdef'' of
        Some v \<Rightarrow> Some v
      | None \<Rightarrow> map_option (\<lambda>k. k + 10) (findIndex (\<lambda>d. d = c) ''ABCDEF''))"

fun leading_digits :: "nat \<Rightarrow> string \<Rightarrow> nat list" where
  "leading_digits radix [] = []"
| "leading_digits radix (c # cs) =
     (case digit_value c of
        None \<Rightarrow> []
      | Some d \<Rightarrow> if d < radix then d # leading_digits radix cs else [])"

definition digits_value :: "nat \<Rightarrow> nat list \<Rightarrow> nat" where
  "digits_value radix ds = foldl (\<lambda>acc d. acc * radix + d) 0 ds"

definition parseInt :: "string \<Rightarrow> int option" where
  \<comment> \<open>\<open>parseInt(s)\<close> with no radix: white space, a sign, an optional \<open>0x\<close>, then the
      longest run of digits; \<open>NaN\<close> when that run is empty\<close>
  "parseInt s =
     (let t = dropWhile is_ws s;
          neg = (take 1 t = ''-'');
          u = (if take 1 t = ''-'' \<or> take 1 t = ''+'' then drop 1 t else t);
          hex = (take 2 u = ''0x'' \<or> take 2 u = ''0X'');
          radix = (if hex then 16 else 10);
          ds = leading_digits radix (if hex then drop 2 u else u)
      in if ds = [] then None
         else Some (if neg then - int (digits_value radix ds) else int (digits_value radix ds)))"

definition Number_js :: "string \<Rightarrow> int option" where
  \<comment> \<open>\<open>Number(s)\<close> on the strings the provider gives it, the decimal text of an integer:
      the empty string is 0, a signed run of decimal digits is its value, and every other
      string is taken as \<open>NaN\<close> (fractions, exponents and radix prefixes do not occur)\<close>
  "Number_js s =
     (let t = rev (dropWhile is_ws (rev (dropWhile is_ws s)));
          neg = (take 1 t = ''-'');
          u = (if take 1 t = ''-'' \<or> take 1 t = ''+'' then drop 1 t else t);
          ds = leading_digits 10 u
      in if t = [] then Some 0
         else if u = [] \<or> length ds \<noteq> length u then None
         else Some (if neg then - int (digits_value 10 ds) else int (digits_value 10 ds)))"

definition pathToLastIndex :: "string \<Rightarrow> int option" where
  "pathToLastIndex path = parseInt (last (split_str CHR ''/'' path))"

definition index_array :: "'a list \<Rightarrow> int option \<Rightarrow> 'a option" where
  \<comment> \<open>\<open>xs[i]\<close>: \<open>undefined\<close> outside the array and at \<open>NaN\<close>\<close>
  "index_array xs i =
     (case i of
        None \<Rightarrow> None
      | Some k \<Rightarrow> if 0 \<le> k \<and> nat k < length xs then Some (xs ! nat k) else None)"

section \<open>Data\<close>

type_synonym addr = nat

text \<open>
  \<open>HoppRESTRequest\<close> and \<open>HoppCollection\<close> come from the data package. A request is an
  object with named fields (\<open>name\<close>, \<open>endpoint\<close>, \<open>method\<close>, an optional \<open>id\<close>, ...); it is
  modelled as its list of fields, in insertion order. Field values are taken as atoms
  (strings); the model does not follow lodash's \<open>merge\<close> into nested objects and arrays.
  Request objects are shared by reference between the caller, the collection tree and the
  handles, so they live in a heap (\<open>requestObjects\<close> of the state) and are named by their
  address.
\<close>

type_synonym HoppRESTRequest = "(string \<times> string) list"

record HoppRESTAuth =
  authType :: string
  authActive :: bool

type_synonym HoppRESTHeaders = "(string \<times> string \<times> bool) list"

datatype HoppCollection =
  HoppCollection
    (c_name: string)
    (folders: "HoppCollection list")
    (requests: "addr list")
    (headers: HoppRESTHeaders)
    (auth: HoppRESTAuth)
    (c_id: "string option")

text \<open>\<open>Partial<HoppCollection>\<close>: every field may be absent.\<close>

record PartialHoppCollection =
  p_name :: "string option"
  p_folders :: "HoppCollection list option"
  p_requests :: "addr list option"
  p_headers :: "HoppRESTHeaders option"
  p_auth :: "HoppRESTAuth option"
  p_id :: "string option"

definition spread :: "PartialHoppCollection \<Rightarrow> PartialHoppCollection \<Rightarrow> PartialHoppCollection" where
  \<comment> \<open>\<open>{ ...a, ...b }\<close>\<close>
  "spread a b =
     \<lparr> p_name = (case p_name b of None \<Rightarrow> p_name a | Some v \<Rightarrow> Some v),
       p_folders = (case p_folders b of None \<Rightarrow> p_folders a | Some v \<Rightarrow> Some v),
       p_requests = (case p_requests b of None \<Rightarrow> p_requests a | Some v \<Rightarrow> Some v),
       p_headers = (case p_headers b of None \<Rightarrow> p_headers a | Some v \<Rightarrow> Some v),
       p_auth = (case p_auth b of None \<Rightarrow> p_auth a | Some v \<Rightarrow> Some v),
       p_id = (case p_id b of None \<Rightarrow> p_id a | Some v \<Rightarrow> Some v) \<rparr>"

definition partial_of :: "HoppCollection option \<Rightarrow> PartialHoppCollection" where
  \<comment> \<open>the own fields of a collection; spreading \<open>null\<close> contributes none\<close>
  "partial_of c =
     (case c of
        None \<Rightarrow> \<lparr> p_name = None, p_folders = None, p_requests = None, p_headers = None,
                  p_auth = None, p_id = None \<rparr>
      | Some x \<Rightarrow> \<lparr> p_name = Some (c_name x), p_folders = Some (folders x),
                    p_requests = Some (requests x), p_headers = Some (headers x),
                    p_auth = Some (auth x), p_id = c_id x \<rparr>)"

text \<open>
  Handles (\<open>handle.ts\<close>): the value of a handle is either \<open>{type: "ok", data}\<close> or
  \<open>{type: "invalid", reason}\<close>.
\<close>

datatype 'd HandleState = ok (data: 'd) | invalid (reason: string)

record Workspace =
  providerID :: string
  workspaceID :: string
  name :: string

record WorkspaceCollection =
  providerID :: string
  workspaceID :: string
  collectionID :: string
  name :: string

record WorkspaceRequest =
  providerID :: string
  workspaceID :: string
  collectionID :: string
  requestID :: string
  request :: addr

text \<open>
  The state the provider works on. \<open>restCollectionState\<close> is the collection tree of the
  store (the provider reads it through \<open>restCollectionStore.value\<close> and through the ref
  \<open>restCollectionState\<close> that follows the store's stream; both are the same tree).
  \<open>handleRefData\<close> holds the reactive cells made by \<open>ref({type: "ok", data: ...})\<close> in
  \<open>createRESTRequest\<close> and \<open>getRequestHandle\<close>, a cell's address being its index.
  \<open>issuedHandles\<close> is the registry: each entry is a writable computed ref over one cell
  and is represented by that cell's address. Only request cells are ever pushed, so the
  registry's test \<open>"requestID" in handle.value.data\<close> holds for every entry that is not
  invalid. \<open>workspaceRefs\<close> holds the value objects of the shallow refs made by
  \<open>getPersonalWorkspaceHandle\<close>.

  Every handle a method returns is a \<open>computed\<close> ref, and a computed ref keeps the value
  its getter returned until the reactive system marks it dirty. \<open>collectionCaches\<close> and
  \<open>requestCaches\<close> hold that kept value for the computed collection handles and the
  computed request handles, one slot for each in the order of their creation; \<open>None\<close> is
  a ref that is dirty or has not been read yet. The getter of a request handle returns
  \<open>handleRefData.value\<close>, the value object of a cell and not a copy of it, or a fresh
  invalid object: \<open>RequestValue\<close>.
\<close>

datatype RequestValue = CellValue addr | InvalidValue string

record State =
  restCollectionState :: "HoppCollection list"
  requestObjects :: "HoppRESTRequest list"
  handleRefData :: "WorkspaceRequest HandleState list"
  issuedHandles :: "addr list"
  workspaceRefs :: "Workspace HandleState list"
  collectionCaches :: "WorkspaceCollection HandleState option list"
  requestCaches :: "RequestValue option list"

text \<open>
  A handle that is given to a method is any ref: what matters of it is the value that
  reading \<open>.value\<close> yields in the current state.
\<close>

type_synonym 'd Handle = "State \<Rightarrow> 'd HandleState"

text \<open>
  A computed ref of Vue, \<open>computed(() => ...)\<close>. \<open>getter\<close> is what its getter evaluates to in
  a state. \<open>read\<close> is what reading \<open>.value\<close> yields: the kept value when there is one,
  and the getter's value otherwise. \<open>touch\<close> is what a read does to the state: a read
  that had to run the getter keeps the value it got. The reactive system marks a computed
  ref dirty when a source its getter read is written through the reactive interface:
  when \<open>.value\<close> of a shallow ref is assigned, or when the computed ref it read has
  changed. It does not see a write to a field of the object a shallow ref holds. The
  methods of the provider assign to no ref that a getter reads (they write fields of the
  objects the request cells hold, and a holder sees those through the kept object), so
  inside the provider a slot only ever goes from \<open>None\<close> to a kept value.
\<close>

record 'd Computed =
  getter :: "'d Handle"
  read :: "'d Handle"
  touch :: "State \<Rightarrow> State"
  slot :: nat

definition cached :: "'a option list \<Rightarrow> nat \<Rightarrow> 'a option" where
  \<comment> \<open>the value kept in a slot; a slot never written keeps none\<close>
  "cached cs k = (if k < length cs then cs ! k else None)"

definition deref :: "RequestValue \<Rightarrow> State \<Rightarrow> WorkspaceRequest HandleState" where
  \<comment> \<open>the fields of the object a request handle's getter returned, as they are now\<close>
  "deref v w =
     (case v of
        CellValue a \<Rightarrow> handleRefData w ! a
      | InvalidValue r \<Rightarrow> invalid r)"

definition computedCollection ::
  "nat \<Rightarrow> WorkspaceCollection Handle \<Rightarrow> WorkspaceCollection Computed" where
  \<comment> \<open>the computed ref in slot \<open>k\<close> whose getter is \<open>g\<close>\<close>
  "computedCollection k g =
     \<lparr> getter = g,
       read = (\<lambda>w. case cached (collectionCaches w) k of
                      None \<Rightarrow> g w
                    | Some v \<Rightarrow> v),
       touch = (\<lambda>w. case cached (collectionCaches w) k of
                       None \<Rightarrow> w \<lparr> collectionCaches := (collectionCaches w) [k := Some (g w)] \<rparr>
                     | Some v \<Rightarrow> w),
       slot = k \<rparr>"

definition computedRequest ::
  "nat \<Rightarrow> (State \<Rightarrow> RequestValue) \<Rightarrow> WorkspaceRequest Computed" where
  \<comment> \<open>the same for a request handle; the kept value is an object, read through\<close>
  "computedRequest k g =
     \<lparr> getter = (\<lambda>w. deref (g w) w),
       read = (\<lambda>w. case cached (requestCaches w) k of
                      None \<Rightarrow> deref (g w) w
                    | Some v \<Rightarrow> deref v w),
       touch = (\<lambda>w. case cached (requestCaches w) k of
                       None \<Rightarrow> w \<lparr> requestCaches := (requestCaches w) [k := Some (g w)] \<rparr>
                     | Some v \<Rightarrow> w),
       slot = k \<rparr>"

datatype error =
    INVALID_WORKSPACE_HANDLE
  | INVALID_COLLECTION_HANDLE
  | INVALID_REQUEST_HANDLE
  | INVALID_COLLECTION_ID
  | COLLECTION_NOT_FOUND
  | INVALID_REQUEST_ID
  | REQUEST_NOT_FOUND
  | INVALID_WORKSPACE_ID
  | TypeError

section \<open>The collection store\<close>

text \<open>
  The provider imports the operations of the collection store and two path helpers; their
  module is not among the sources. They are parameters of the model: a record of
  functions on the collection tree. The fields \<open>store_removeRESTCollection\<close>,
  \<open>store_removeRESTRequest\<close> and \<open>store_moveRESTRequest\<close> are the imports that share
  their name with a method of the provider. A request is passed to the store by
  reference. The operations are taken to act on the tree alone: they read and write
  neither the fields of a request object nor the registry, which is private to the
  provider.
\<close>

record Store =
  addRESTCollection :: "PartialHoppCollection \<Rightarrow> HoppCollection list \<Rightarrow> HoppCollection list"
  addRESTFolder :: "string \<Rightarrow> string \<Rightarrow> HoppCollection list \<Rightarrow> HoppCollection list"
  appendRESTCollections :: "HoppCollection list \<Rightarrow> HoppCollection list \<Rightarrow> HoppCollection list"
  editRESTCollection :: "int option \<Rightarrow> PartialHoppCollection \<Rightarrow> HoppCollection list \<Rightarrow> HoppCollection list"
  editRESTFolder :: "string \<Rightarrow> PartialHoppCollection \<Rightarrow> HoppCollection list \<Rightarrow> HoppCollection list"
  editRESTRequest :: "string \<Rightarrow> int option \<Rightarrow> addr \<Rightarrow> HoppCollection list \<Rightarrow> HoppCollection list"
  moveRESTFolder :: "string \<Rightarrow> string option \<Rightarrow> HoppCollection list \<Rightarrow> HoppCollection list"
  store_moveRESTRequest :: "string \<Rightarrow> int option \<Rightarrow> string \<Rightarrow> HoppCollection list \<Rightarrow> HoppCollection list"
  navigateToFolderWithIndexPath :: "HoppCollection list \<Rightarrow> int option list \<Rightarrow> HoppCollection option"
  store_removeRESTCollection :: "int option \<Rightarrow> string option \<Rightarrow> HoppCollection list \<Rightarrow> HoppCollection list"
  removeRESTFolder :: "string \<Rightarrow> string option \<Rightarrow> HoppCollection list \<Rightarrow> HoppCollection list"
  store_removeRESTRequest :: "string \<Rightarrow> int option \<Rightarrow> string option \<Rightarrow> HoppCollection list \<Rightarrow> HoppCollection list"
  saveRESTRequestAs :: "string \<Rightarrow> addr \<Rightarrow> HoppCollection list \<Rightarrow> nat \<times> HoppCollection list"
  updateRESTCollectionOrder :: "string \<Rightarrow> string option \<Rightarrow> HoppCollection list \<Rightarrow> HoppCollection list"
  updateRESTRequestOrder :: "int option \<Rightarrow> int option option \<Rightarrow> string \<Rightarrow> HoppCollection list \<Rightarrow> HoppCollection list"
  getRequestsByPath :: "HoppCollection list \<Rightarrow> string \<Rightarrow> addr list"

section \<open>Validity of a handle\<close>

text \<open>
  The three helpers of \<open>helpers.ts\<close> read \<open>.value\<close> of the handle they are given, in the
  current state.
\<close>

definition this_providerID :: string where
  "this_providerID = ''PERSONAL_WORKSPACE_PROVIDER''"

definition isValidWorkspaceHandle :: "Workspace Handle \<Rightarrow> string \<Rightarrow> string \<Rightarrow> State \<Rightarrow> bool" where
  \<comment> \<open>\<open>helpers.ts\<close>: the value of the handle is \<open>ok\<close> and carries the expected provider
      ID and workspace ID\<close>
  "isValidWorkspaceHandle h pid wid s =
     (case h s of
        invalid r \<Rightarrow> False
      | ok d \<Rightarrow> Workspace.providerID d = pid \<and> Workspace.workspaceID d = wid)"

definition isValidCollectionHandle :: "WorkspaceCollection Handle \<Rightarrow> string \<Rightarrow> string \<Rightarrow> State \<Rightarrow> bool" where
  \<comment> \<open>\<open>helpers.ts\<close>: the same test on a collection handle\<close>
  "isValidCollectionHandle h pid wid s =
     (case h s of
        invalid r \<Rightarrow> False
      | ok d \<Rightarrow> WorkspaceCollection.providerID d = pid \<and> WorkspaceCollection.workspaceID d = wid)"

definition isValidRequestHandle :: "WorkspaceRequest Handle \<Rightarrow> string \<Rightarrow> string \<Rightarrow> State \<Rightarrow> bool" where
  \<comment> \<open>\<open>helpers.ts\<close>: the same test on a request handle\<close>
  "isValidRequestHandle h pid wid s =
     (case h s of
        invalid r \<Rightarrow> False
      | ok d \<Rightarrow> providerID d = pid \<and> workspaceID d = wid)"

section \<open>The personal workspace provider\<close>

text \<open>
  Every method returns an already resolved promise of an \<open>Either\<close>; the model returns the
  \<open>Either\<close> (\<open>Inl\<close> is \<open>Left\<close>) and the state after the call. Analytics events, file
  downloads and the updates of the tabs' save contexts act on other services and are not
  part of this state. A method that returns a handle makes a computed ref: it takes the
  next slot and returns the ref over that slot. The read a method makes of the handle it
  is given is a read like any other: the method is given what the read yields, and
  \<open>touch\<close> is the caller's to apply when the handle is a computed ref.
\<close>

record NewCollection =
  n_name :: string
  n_fields :: PartialHoppCollection

definition makeCollection :: "PartialHoppCollection \<Rightarrow> PartialHoppCollection" where
  \<comment> \<open>the data package's constructor adds a schema version only\<close>
  "makeCollection c = c"

definition createRESTRootCollection ::
  "Store \<Rightarrow> Workspace Handle \<Rightarrow> NewCollection \<Rightarrow> State \<Rightarrow> (error + WorkspaceCollection Computed) \<times> State" where
  "createRESTRootCollection S workspaceHandle newCollection s =
     (if \<not> isValidWorkspaceHandle workspaceHandle this_providerID ''personal'' s
      then (Inl INVALID_WORKSPACE_HANDLE, s)
      else
        let newCollectionName = n_name newCollection;
            newCollectionID = string_of_nat (length (restCollectionState s));
            newRootCollection = makeCollection
              (spread \<lparr> p_name = None, p_folders = Some [], p_requests = Some [],
                        p_headers = Some [],
                        p_auth = Some \<lparr> authType = ''inherit'', authActive = False \<rparr>,
                        p_id = None \<rparr>
                      ((n_fields newCollection) \<lparr> p_name := Some (n_name newCollection) \<rparr>))
        in (Inr (computedCollection (length (collectionCaches s))
                   (\<lambda>w. if \<not> isValidWorkspaceHandle workspaceHandle this_providerID ''personal'' w
                        then invalid ''WORKSPACE_INVALIDATED''
                        else ok \<lparr> WorkspaceCollection.providerID = this_providerID,
                                  workspaceID = Workspace.workspaceID (data (workspaceHandle w)),
                                  collectionID = newCollectionID,
                                  name = newCollectionName \<rparr>)),
            s \<lparr> restCollectionState := addRESTCollection S newRootCollection (restCollectionState s),
                collectionCaches := collectionCaches s @ [None] \<rparr>))"

definition createRESTChildCollection ::
  "Store \<Rightarrow> WorkspaceCollection Handle \<Rightarrow> NewCollection \<Rightarrow> State \<Rightarrow> (error + WorkspaceCollection Computed) \<times> State" where
  "createRESTChildCollection S parentCollectionHandle newChildCollection s =
     (if \<not> isValidCollectionHandle parentCollectionHandle this_providerID ''personal'' s
      then (Inl INVALID_COLLECTION_HANDLE, s)
      else
        let d = data (parentCollectionHandle s);
            newCollectionName = n_name newChildCollection
        in (Inr (computedCollection (length (collectionCaches s))
                   (\<lambda>w. if \<not> isValidCollectionHandle parentCollectionHandle this_providerID ''personal'' w
                        then invalid ''COLLECTION_INVALIDATED''
                        else ok \<lparr> WorkspaceCollection.providerID = WorkspaceCollection.providerID d,
                                  workspaceID = WorkspaceCollection.workspaceID d,
                                  collectionID = WorkspaceCollection.collectionID d,
                                  name = newCollectionName \<rparr>)),
            s \<lparr> restCollectionState :=
                  addRESTFolder S newCollectionName (WorkspaceCollection.collectionID d)
                    (restCollectionState s),
                collectionCaches := collectionCaches s @ [None] \<rparr>))"

definition updateRESTCollection ::
  "Store \<Rightarrow> WorkspaceCollection Handle \<Rightarrow> PartialHoppCollection \<Rightarrow> State \<Rightarrow> (error + unit) \<times> State" where
  "updateRESTCollection S collectionHandle updatedCollection s =
     (if \<not> isValidCollectionHandle collectionHandle this_providerID ''personal'' s
      then (Inl INVALID_COLLECTION_HANDLE, s)
      else
        let cID = WorkspaceCollection.collectionID (data (collectionHandle s));
            collection = navigateToFolderWithIndexPath S (restCollectionState s)
                           (map parseInt (split_str CHR ''/'' cID));
            newCollection = spread (partial_of collection) updatedCollection;
            isRootCollection = (length (split_str CHR ''/'' cID) = 1)
        in (Inr (),
            s \<lparr> restCollectionState :=
                  (if isRootCollection
                   then editRESTCollection S (parseInt cID) newCollection (restCollectionState s)
                   else editRESTFolder S cID newCollection (restCollectionState s)) \<rparr>))"

text \<open>
  The loop of \<open>removeRESTCollection\<close> over the registry: an entry that is not invalid and
  whose \<open>requestID\<close> starts with the collection ID has its cell rewritten to the invalid
  state.
\<close>

definition invalidateUnder :: "string \<Rightarrow> addr \<Rightarrow> WorkspaceRequest HandleState list \<Rightarrow> WorkspaceRequest HandleState list" where
  "invalidateUnder cID a cells =
     (case cells ! a of
        invalid r \<Rightarrow> cells
      | ok d \<Rightarrow> if startsWith (requestID d) cID
                then cells [a := invalid ''REQUEST_INVALIDATED'']
                else cells)"

definition removeRESTCollection ::
  "Store \<Rightarrow> WorkspaceCollection Handle \<Rightarrow> State \<Rightarrow> (error + unit) \<times> State" where
  "removeRESTCollection S collectionHandle s =
     (if \<not> isValidCollectionHandle collectionHandle this_providerID ''personal'' s
      then (Inl INVALID_COLLECTION_HANDLE, s)
      else
        let cID = WorkspaceCollection.collectionID (data (collectionHandle s));
            isRootCollection = (length (split_str CHR ''/'' cID) = 1);
            collectionIndex = parseInt cID;
            tree = restCollectionState s;
            tree' =
              (if isRootCollection
               then
                 let collectionToRemove = navigateToFolderWithIndexPath S tree [collectionIndex]
                 in store_removeRESTCollection S collectionIndex
                      (case collectionToRemove of None \<Rightarrow> None | Some c \<Rightarrow> c_id c) tree
               else
                 let folderToRemove = navigateToFolderWithIndexPath S tree
                                        (map parseInt (split_str CHR ''/'' cID))
                 in removeRESTFolder S cID
                      (case folderToRemove of None \<Rightarrow> None | Some c \<Rightarrow> c_id c) tree)
        in (Inr (),
            s \<lparr> restCollectionState := tree',
                handleRefData := fold (invalidateUnder cID) (issuedHandles s) (handleRefData s) \<rparr>))"

definition handleIsAlreadyIssued ::
  "WorkspaceRequest HandleState list \<Rightarrow> addr list \<Rightarrow> string \<Rightarrow> string \<Rightarrow> string \<Rightarrow> string \<Rightarrow> bool" where
  \<comment> \<open>\<open>issuedHandles.some(...)\<close>: some entry is not invalid and carries, apart from its
      request, exactly the four given IDs\<close>
  "handleIsAlreadyIssued cells issued pID wID cID rID =
     list_ex (\<lambda>a. case cells ! a of
                     invalid r \<Rightarrow> False
                   | ok d \<Rightarrow> providerID d = pID \<and> workspaceID d = wID
                              \<and> collectionID d = cID \<and> requestID d = rID)
             issued"

definition createRESTRequest ::
  "Store \<Rightarrow> WorkspaceCollection Handle \<Rightarrow> addr \<Rightarrow> State \<Rightarrow> (error + WorkspaceRequest Computed) \<times> State" where
  "createRESTRequest S parentCollectionHandle newRequest s =
     (if \<not> isValidCollectionHandle parentCollectionHandle this_providerID ''personal'' s
      then (Inl INVALID_COLLECTION_HANDLE, s)
      else
        let d = data (parentCollectionHandle s);
            cID = WorkspaceCollection.collectionID d;
            pID = WorkspaceCollection.providerID d;
            wID = WorkspaceCollection.workspaceID d;
            saved = saveRESTRequestAs S cID newRequest (restCollectionState s);
            insertionIndex = fst saved;
            rID = cID @ ''/'' @ string_of_nat insertionIndex;
            handleRefData_addr = length (handleRefData s);
            cells = handleRefData s @
                      [ok \<lparr> providerID = pID, workspaceID = wID, collectionID = cID,
                            requestID = rID, request = newRequest \<rparr>];
            handle = computedRequest (length (requestCaches s))
                       (\<lambda>w. if \<not> isValidCollectionHandle parentCollectionHandle this_providerID ''personal'' w
                            then InvalidValue ''COLLECTION_INVALIDATED''
                            else CellValue handleRefData_addr)
        in (Inr handle,
            s \<lparr> restCollectionState := snd saved,
                handleRefData := cells,
                issuedHandles :=
                  (if \<not> handleIsAlreadyIssued cells (issuedHandles s) pID wID cID rID
                   then issuedHandles s @ [handleRefData_addr]
                   else issuedHandles s),
                requestCaches := requestCaches s @ [None] \<rparr>))"

definition invalidateRequest :: "string \<Rightarrow> addr \<Rightarrow> WorkspaceRequest HandleState list \<Rightarrow> WorkspaceRequest HandleState list" where
  \<comment> \<open>one turn of the loop of \<open>removeRESTRequest\<close>\<close>
  "invalidateRequest rID a cells =
     (case cells ! a of
        invalid r \<Rightarrow> cells
      | ok d \<Rightarrow> if requestID d = rID
                then cells [a := invalid ''REQUEST_INVALIDATED'']
                else cells)"

definition removeRESTRequest ::
  "Store \<Rightarrow> WorkspaceRequest Handle \<Rightarrow> State \<Rightarrow> (error + unit) \<times> State" where
  "removeRESTRequest S requestHandle s =
     (if \<not> isValidRequestHandle requestHandle this_providerID ''personal'' s
      then (Inl INVALID_REQUEST_HANDLE, s)
      else
        let d = data (requestHandle s);
            cID = collectionID d;
            rID = requestID d;
            requestIndex = parseInt (last (split_str CHR ''/'' rID));
            requestToRemove =
              (case navigateToFolderWithIndexPath S (restCollectionState s)
                      (map parseInt (split_str CHR ''/'' cID)) of
                 None \<Rightarrow> None
               | Some c \<Rightarrow> index_array (requests c) requestIndex)
        in (Inr (),
            s \<lparr> restCollectionState :=
                  store_removeRESTRequest S cID requestIndex
                    (case requestToRemove of
                       None \<Rightarrow> None
                     | Some r \<Rightarrow> map_of (requestObjects s ! r) ''id'')
                    (restCollectionState s),
                handleRefData := fold (invalidateRequest rID) (issuedHandles s) (handleRefData s) \<rparr>))"

text \<open>
  \<open>merge(request, updatedRequest)\<close> of lodash assigns the fields of its second argument
  to its first argument, in place, and returns the first argument. In
  \<open>updateRESTRequest\<close> that first argument is \<open>requestHandle.value.data.request\<close>: the
  request object the handle's cell refers to, reached through the reactive proxy of the
  cell, which writes through to the object. So \<open>newRequest\<close> is that same object, and
  the merge is seen by every cell that refers to it.
\<close>

definition merge :: "HoppRESTRequest \<Rightarrow> HoppRESTRequest \<Rightarrow> HoppRESTRequest" where
  "merge object source = fold (\<lambda>kv obj. AList.update (fst kv) (snd kv) obj) source object"

definition assign_name :: "string option \<Rightarrow> HoppRESTRequest \<Rightarrow> HoppRESTRequest" where
  \<comment> \<open>\<open>obj.name = v\<close>, where \<open>v\<close> may be \<open>undefined\<close>\<close>
  "assign_name v obj =
     (case v of
        None \<Rightarrow> AList.delete ''name'' obj
      | Some n \<Rightarrow> AList.update ''name'' n obj)"

definition renameRequest ::
  "WorkspaceRequest HandleState list \<Rightarrow> string \<Rightarrow> addr \<Rightarrow> addr \<Rightarrow> HoppRESTRequest list \<Rightarrow> HoppRESTRequest list" where
  \<comment> \<open>one turn of the loop of \<open>updateRESTRequest\<close>\<close>
  "renameRequest cells rID newRequest a objs =
     (case cells ! a of
        invalid r \<Rightarrow> objs
      | ok d \<Rightarrow> if requestID d = rID
                then objs [request d := assign_name (map_of (objs ! newRequest) ''name'') (objs ! request d)]
                else objs)"

definition updateRESTRequest ::
  "Store \<Rightarrow> WorkspaceRequest Handle \<Rightarrow> HoppRESTRequest \<Rightarrow> State \<Rightarrow> (error + unit) \<times> State" where
  "updateRESTRequest S requestHandle updatedRequest s =
     (if \<not> isValidRequestHandle requestHandle this_providerID ''personal'' s
      then (Inl INVALID_REQUEST_HANDLE, s)
      else
        let updatedRequest' = AList.delete ''id'' updatedRequest;
            d = data (requestHandle s);
            cID = collectionID d;
            rID = requestID d;
            newRequest = request d;
            objs = (requestObjects s) [newRequest := merge (requestObjects s ! newRequest) updatedRequest'];
            requestIndex = parseInt (last (split_str CHR ''/'' rID))
        in (Inr (),
            s \<lparr> restCollectionState := editRESTRequest S cID requestIndex newRequest (restCollectionState s),
                requestObjects := fold (renameRequest (handleRefData s) rID newRequest) (issuedHandles s) objs \<rparr>))"

definition importRESTCollections ::
  "Store \<Rightarrow> Workspace Handle \<Rightarrow> HoppCollection list \<Rightarrow> State \<Rightarrow> (error + WorkspaceCollection Computed) \<times> State" where
  "importRESTCollections S workspaceHandle collections s =
     (if \<not> isValidWorkspaceHandle workspaceHandle this_providerID ''personal'' s
      then (Inl INVALID_WORKSPACE_HANDLE, s)
      else
        let tree' = appendRESTCollections S collections (restCollectionState s)
        in (case collections of
              [] \<Rightarrow> (Inl TypeError, s \<lparr> restCollectionState := tree' \<rparr>)
            | c # cs \<Rightarrow>
                let newCollectionName = c_name c;
                    newCollectionID = string_of_nat (length tree')
                in (Inr (computedCollection (length (collectionCaches s))
                           (\<lambda>w. if \<not> isValidWorkspaceHandle workspaceHandle this_providerID ''personal'' w
                                then invalid ''WORKSPACE_INVALIDATED''
                                else ok \<lparr> WorkspaceCollection.providerID = this_providerID,
                                          workspaceID = Workspace.workspaceID (data (workspaceHandle w)),
                                          collectionID = newCollectionID,
                                          name = newCollectionName \<rparr>)),
                    s \<lparr> restCollectionState := tree',
                        collectionCaches := collectionCaches s @ [None] \<rparr>)))"

definition reorderRESTCollection ::
  "Store \<Rightarrow> WorkspaceCollection Handle \<Rightarrow> string option \<Rightarrow> State \<Rightarrow> (error + unit) \<times> State" where
  "reorderRESTCollection S collectionHandle destinationCollectionID s =
     (if \<not> isValidCollectionHandle collectionHandle this_providerID ''personal'' s
      then (Inl INVALID_COLLECTION_HANDLE, s)
      else
        let draggedCollectionIndex = WorkspaceCollection.collectionID (data (collectionHandle s))
        in (Inr (),
            s \<lparr> restCollectionState :=
                  updateRESTCollectionOrder S draggedCollectionIndex destinationCollectionID
                    (restCollectionState s) \<rparr>))"

definition moveRESTCollection ::
  "Store \<Rightarrow> WorkspaceCollection Handle \<Rightarrow> string option \<Rightarrow> State \<Rightarrow> (error + unit) \<times> State" where
  "moveRESTCollection S collectionHandle destinationCollectionID s =
     (if \<not> isValidCollectionHandle collectionHandle this_providerID ''personal'' s
      then (Inl INVALID_COLLECTION_HANDLE, s)
      else
        (Inr (),
         s \<lparr> restCollectionState :=
               moveRESTFolder S (WorkspaceCollection.collectionID (data (collectionHandle s)))
                 destinationCollectionID (restCollectionState s) \<rparr>))"

definition reorderRESTRequest ::
  "Store \<Rightarrow> WorkspaceRequest Handle \<Rightarrow> string \<Rightarrow> string option \<Rightarrow> State \<Rightarrow> (error + unit) \<times> State" where
  "reorderRESTRequest S requestHandle destinationCollectionID destinationRequestID s =
     (if \<not> isValidRequestHandle requestHandle this_providerID ''personal'' s
      then (Inl INVALID_REQUEST_HANDLE, s)
      else
        let draggedRequestIndex = requestID (data (requestHandle s))
        in (Inr (),
            s \<lparr> restCollectionState :=
                  updateRESTRequestOrder S
                    (pathToLastIndex draggedRequestIndex)
                    (case destinationRequestID of
                       None \<Rightarrow> None
                     | Some r \<Rightarrow> if r = [] then None else Some (pathToLastIndex r))
                    destinationCollectionID
                    (restCollectionState s) \<rparr>))"

definition hasRequestID :: "WorkspaceRequest HandleState list \<Rightarrow> string \<Rightarrow> addr \<Rightarrow> bool" where
  \<comment> \<open>the predicate given to \<open>findIndex\<close> in \<open>moveRESTRequest\<close>\<close>
  "hasRequestID cells rID a =
     (case cells ! a of
        invalid r \<Rightarrow> False
      | ok d \<Rightarrow> requestID d = rID)"

definition decrementAffected ::
  "string \<Rightarrow> addr list \<Rightarrow> string \<Rightarrow> WorkspaceRequest HandleState list \<Rightarrow> WorkspaceRequest HandleState list" where
  \<comment> \<open>the body of \<open>affectedRequestIDs.forEach\<close>\<close>
  "decrementAffected sourceCollectionID issued rID cells =
     (case findIndex (hasRequestID cells rID) issued of
        None \<Rightarrow> cells
      | Some handleIdx \<Rightarrow>
          (case cells ! (issued ! handleIdx) of
             invalid r \<Rightarrow> cells
           | ok d \<Rightarrow>
               let reqIndexPos = Number_js (last (split_str CHR ''/'' (requestID d)))
               in cells [issued ! handleIdx :=
                    ok (d \<lparr> requestID := sourceCollectionID @ ''/''
                               @ show_num (map_option (\<lambda>i. i - 1) reqIndexPos) \<rparr>)]))"

definition affectedRequestIDs :: "string \<Rightarrow> int option \<Rightarrow> string list" where
  \<comment> \<open>\<open>Array.from({ length: affectedReqIndexRange }).map((_, idx) => ...)\<close>; a length
      that is negative or \<open>NaN\<close> gives the empty array\<close>
  "affectedRequestIDs sourceCollectionID affectedReqIndexRange =
     (case affectedReqIndexRange of
        None \<Rightarrow> []
      | Some r \<Rightarrow> map (\<lambda>idx. sourceCollectionID @ ''/'' @ show_num (Some (r + int idx)))
                     [0 ..< nat r])"

definition moveRESTRequest ::
  "Store \<Rightarrow> WorkspaceRequest Handle \<Rightarrow> string \<Rightarrow> State \<Rightarrow> (error + unit) \<times> State" where
  "moveRESTRequest S requestHandle destinationCollectionID s =
     (if \<not> isValidRequestHandle requestHandle this_providerID ''personal'' s
      then (Inl INVALID_REQUEST_HANDLE, s)
      else
        let draggedRequestID = requestID (data (requestHandle s));
            sourceCollectionID = join_str ''/'' (butlast (split_str CHR ''/'' draggedRequestID));
            draggedRequestIndexPos = pathToLastIndex draggedRequestID
        in (case findIndex (hasRequestID (handleRefData s) draggedRequestID) (issuedHandles s) of
              None \<Rightarrow> (Inl INVALID_REQUEST_HANDLE, s)
            | Some movedRequestHandleIdx \<Rightarrow>
                (case handleRefData s ! (issuedHandles s ! movedRequestHandleIdx) of
                   invalid r \<Rightarrow> (Inl INVALID_REQUEST_HANDLE, s)
                 | ok moved \<Rightarrow>
                     let draggedCollectionReqCountBeforeMove =
                           length (getRequestsByPath S (restCollectionState s) sourceCollectionID);
                         affectedReqIndexRange =
                           map_option (\<lambda>pos. int draggedCollectionReqCountBeforeMove - 1 - pos)
                             draggedRequestIndexPos;
                         tree' = store_moveRESTRequest S sourceCollectionID draggedRequestIndexPos
                                   destinationCollectionID (restCollectionState s);
                         destinationCollectionReqCount =
                           length (getRequestsByPath S tree' destinationCollectionID);
                         cells = (handleRefData s)
                           [issuedHandles s ! movedRequestHandleIdx :=
                              ok (moved \<lparr> collectionID := destinationCollectionID,
                                          requestID := destinationCollectionID @ ''/''
                                            @ show_num (Some (int destinationCollectionReqCount - 1)) \<rparr>)]
                     in (Inr (),
                         s \<lparr> restCollectionState := tree',
                             handleRefData :=
                               fold (decrementAffected sourceCollectionID (issuedHandles s))
                                 (affectedRequestIDs sourceCollectionID affectedReqIndexRange)
                                 cells \<rparr>))))"

definition getCollectionHandle ::
  "Store \<Rightarrow> Workspace Handle \<Rightarrow> string \<Rightarrow> State \<Rightarrow> (error + WorkspaceCollection Computed) \<times> State" where
  "getCollectionHandle S workspaceHandle cID s =
     (if \<not> isValidWorkspaceHandle workspaceHandle this_providerID ''personal'' s
      then (Inl INVALID_WORKSPACE_HANDLE, s)
      else if cID = [] then (Inl INVALID_COLLECTION_ID, s)
      else
        (case navigateToFolderWithIndexPath S (restCollectionState s)
                (map parseInt (split_str CHR ''/'' cID)) of
           None \<Rightarrow> (Inl COLLECTION_NOT_FOUND, s)
         | Some collection \<Rightarrow>
             let d = data (workspaceHandle s)
             in (Inr (computedCollection (length (collectionCaches s))
                        (\<lambda>w. if \<not> isValidWorkspaceHandle workspaceHandle this_providerID ''personal'' w
                             then invalid ''WORKSPACE_INVALIDATED''
                             else ok \<lparr> WorkspaceCollection.providerID = Workspace.providerID d,
                                       workspaceID = Workspace.workspaceID d,
                                       collectionID = cID,
                                       name = c_name collection \<rparr>)),
                 s \<lparr> collectionCaches := collectionCaches s @ [None] \<rparr>)))"

definition getRequestHandle ::
  "Store \<Rightarrow> Workspace Handle \<Rightarrow> string \<Rightarrow> State \<Rightarrow> (error + WorkspaceRequest Computed) \<times> State" where
  "getRequestHandle S workspaceHandle rID s =
     (if \<not> isValidWorkspaceHandle workspaceHandle this_providerID ''personal'' s
      then (Inl INVALID_COLLECTION_HANDLE, s)
      else if rID = [] then (Inl INVALID_REQUEST_ID, s)
      else
        let d = data (workspaceHandle s);
            pID = Workspace.providerID d;
            wID = Workspace.workspaceID d;
            cID = join_str ''/'' (butlast (split_str CHR ''/'' rID));
            requestIndexPath = last (split_str CHR ''/'' rID)
        in if requestIndexPath = [] then (Inl INVALID_REQUEST_ID, s)
           else
             (case (case navigateToFolderWithIndexPath S (restCollectionState s)
                           (map parseInt (split_str CHR ''/'' cID)) of
                      None \<Rightarrow> None
                    | Some collection \<Rightarrow> index_array (requests collection) (parseInt requestIndexPath)) of
                None \<Rightarrow> (Inl REQUEST_NOT_FOUND, s)
              | Some req \<Rightarrow>
                  let handleRefData_addr = length (handleRefData s);
                      cells = handleRefData s @
                                [ok \<lparr> providerID = pID, workspaceID = wID, collectionID = cID,
                                      requestID = rID, request = req \<rparr>];
                      handle = computedRequest (length (requestCaches s))
                                 (\<lambda>w. if \<not> isValidWorkspaceHandle workspaceHandle this_providerID ''personal'' w
                                      then InvalidValue ''WORKSPACE_INVALIDATED''
                                      else CellValue handleRefData_addr)
                  in (Inr handle,
                      s \<lparr> handleRefData := cells,
                          issuedHandles :=
                            (if \<not> handleIsAlreadyIssued cells (issuedHandles s) pID wID cID rID
                             then issuedHandles s @ [handleRefData_addr]
                             else issuedHandles s),
                          requestCaches := requestCaches s @ [None] \<rparr>)))"

definition getPersonalWorkspaceHandle :: "State \<Rightarrow> Workspace Handle \<times> State" where
  \<comment> \<open>a fresh \<open>shallowRef\<close>\<close>
  "getPersonalWorkspaceHandle s =
     ((\<lambda>w. workspaceRefs w ! length (workspaceRefs s)),
      s \<lparr> workspaceRefs := workspaceRefs s @
            [ok \<lparr> Workspace.providerID = this_providerID, workspaceID = ''personal'',
                  name = ''Personal Workspace'' \<rparr>] \<rparr>)"

definition getWorkspaceHandle :: "string \<Rightarrow> State \<Rightarrow> (error + Workspace Handle) \<times> State" where
  "getWorkspaceHandle wID s =
     (if wID \<noteq> ''personal'' then (Inl INVALID_WORKSPACE_ID, s)
      else (Inr (fst (getPersonalWorkspaceHandle s)), snd (getPersonalWorkspaceHandle s)))"

section \<open>Calls of the provider\<close>

text \<open>
  A client drives the provider by a sequence of calls of its public methods; \<open>exec\<close>
  runs one call and \<open>execs\<close> a sequence, keeping the state also when a call fails.
\<close>

datatype Call =
    CreateRESTRootCollection "Workspace Handle" NewCollection
  | CreateRESTChildCollection "WorkspaceCollection Handle" NewCollection
  | UpdateRESTCollection "WorkspaceCollection Handle" PartialHoppCollection
  | RemoveRESTCollection "WorkspaceCollection Handle"
  | CreateRESTRequest "WorkspaceCollection Handle" addr
  | RemoveRESTRequest "WorkspaceRequest Handle"
  | UpdateRESTRequest "WorkspaceRequest Handle" HoppRESTRequest
  | ImportRESTCollections "Workspace Handle" "HoppCollection list"
  | ReorderRESTCollection "WorkspaceCollection Handle" "string option"
  | MoveRESTCollection "WorkspaceCollection Handle" "string option"
  | ReorderRESTRequest "WorkspaceRequest Handle" string "string option"
  | MoveRESTRequest "WorkspaceRequest Handle" string
  | GetCollectionHandle "Workspace Handle" string
  | GetRequestHandle "Workspace Handle" string
  | GetWorkspaceHandle string

fun exec :: "Store \<Rightarrow> Call \<Rightarrow> State \<Rightarrow> State" where
  "exec S (CreateRESTRootCollection h c) s = snd (createRESTRootCollection S h c s)"
| "exec S (CreateRESTChildCollection h c) s = snd (createRESTChildCollection S h c s)"
| "exec S (UpdateRESTCollection h c) s = snd (updateRESTCollection S h c s)"
| "exec S (RemoveRESTCollection h) s = snd (removeRESTCollection S h s)"
| "exec S (CreateRESTRequest h r) s = snd (createRESTRequest S h r s)"
| "exec S (RemoveRESTRequest h) s = snd (removeRESTRequest S h s)"
| "exec S (UpdateRESTRequest h u) s = snd (updateRESTRequest S h u s)"
| "exec S (ImportRESTCollections h cs) s = snd (importRESTCollections S h cs s)"
| "exec S (ReorderRESTCollection h d) s = snd (reorderRESTCollection S h d s)"
| "exec S (MoveRESTCollection h d) s = snd (moveRESTCollection S h d s)"
| "exec S (ReorderRESTRequest h d r) s = snd (reorderRESTRequest S h d r s)"
| "exec S (MoveRESTRequest h d) s = snd (moveRESTRequest S h d s)"
| "exec S (GetCollectionHandle h c) s = snd (getCollectionHandle S h c s)"
| "exec S (GetRequestHandle h r) s = snd (getRequestHandle S h r s)"
| "exec S (GetWorkspaceHandle w) s = snd (getWorkspaceHandle w s)"

definition execs :: "Store \<Rightarrow> Call list \<Rightarrow> State \<Rightarrow> State" where
  "execs S calls s = fold (exec S) calls s"

section \<open>A store of nested arrays\<close>

text \<open>
  The general theorems below hold for every store. The example runs need a store to run
  on; this one keeps the tree as the nested arrays that index paths address. Every
  definition of this section is modelled from the spec, the store's module being absent.
\<close>

definition parsePath :: "string \<Rightarrow> int option list" where
  \<comment> \<open>\<open>path.split("/").map((x) => parseInt(x))\<close>\<close>
  "parsePath p = map parseInt (split_str CHR ''/'' p)"

fun navigate :: "HoppCollection list \<Rightarrow> int option list \<Rightarrow> HoppCollection option" where
  \<comment> \<open>Modelled from the spec: the store's \<open>navigateToFolderWithIndexPath\<close> is not among the
      sources. An index path is a sequence of positional indices into the nested arrays:
      the first indexes the root array, each further one the folders of the collection
      reached so far.\<close>
  "navigate cs [] = None"
| "navigate cs [i] = index_array cs i"
| "navigate cs (i # j # js) =
     (case index_array cs i of
        None \<Rightarrow> None
      | Some c \<Rightarrow> navigate (folders c) (j # js))"

fun atPath :: "int option list \<Rightarrow> (HoppCollection list \<Rightarrow> HoppCollection list) \<Rightarrow> HoppCollection list \<Rightarrow> HoppCollection list" where
  \<comment> \<open>Modelled from the spec: rewrites the array of collections that an index path leads
      into (the root array for the empty path); a path that leads nowhere changes nothing.\<close>
  "atPath [] g cs = g cs"
| "atPath (i # js) g cs =
     (case index_array cs i of
        None \<Rightarrow> cs
      | Some c \<Rightarrow>
          cs [nat (the i) :=
                HoppCollection (c_name c) (atPath js g (folders c)) (requests c)
                  (headers c) (auth c) (c_id c)])"

definition inCollection :: "string \<Rightarrow> (HoppCollection \<Rightarrow> HoppCollection) \<Rightarrow> HoppCollection list \<Rightarrow> HoppCollection list" where
  \<comment> \<open>Modelled from the spec: rewrites the collection at an index path.\<close>
  "inCollection p f tree =
     atPath (butlast (parsePath p))
       (\<lambda>cs. case index_array cs (last (parsePath p)) of
                None \<Rightarrow> cs
              | Some c \<Rightarrow> cs [nat (the (last (parsePath p))) := f c])
       tree"

definition removeAt :: "int option \<Rightarrow> 'a list \<Rightarrow> 'a list" where
  \<comment> \<open>Modelled from the spec: a removal takes the item at a position out of its array
      and closes the gap; a position outside the array changes nothing.\<close>
  "removeAt i xs =
     (case index_array xs i of
        None \<Rightarrow> xs
      | Some x \<Rightarrow> take (nat (the i)) xs @ drop (Suc (nat (the i))) xs)"

definition reorderItems :: "int option \<Rightarrow> int option option \<Rightarrow> 'a list \<Rightarrow> 'a list" where
  \<comment> \<open>Modelled from the spec: a reorder takes the dragged item out of its array and puts
      it back in front of the destination item, or at the end when there is none.\<close>
  "reorderItems i dest xs =
     (case index_array xs i of
        None \<Rightarrow> xs
      | Some x \<Rightarrow>
          (case dest of
             None \<Rightarrow> removeAt i xs @ [x]
           | Some None \<Rightarrow> xs
           | Some (Some j) \<Rightarrow>
               if j < 0 then xs
               else let k = (if the i < j then nat j - 1 else nat j)
                    in take k (removeAt i xs) @ [x] @ drop k (removeAt i xs)))"

definition collectionOf :: "PartialHoppCollection \<Rightarrow> HoppCollection" where
  \<comment> \<open>Modelled from the spec: the collection the store keeps for the fields it is
      given, absent fields being empty.\<close>
  "collectionOf c =
     HoppCollection
       (case p_name c of None \<Rightarrow> [] | Some v \<Rightarrow> v)
       (case p_folders c of None \<Rightarrow> [] | Some v \<Rightarrow> v)
       (case p_requests c of None \<Rightarrow> [] | Some v \<Rightarrow> v)
       (case p_headers c of None \<Rightarrow> [] | Some v \<Rightarrow> v)
       (case p_auth c of None \<Rightarrow> \<lparr> authType = ''inherit'', authActive = False \<rparr> | Some v \<Rightarrow> v)
       (p_id c)"

definition withRequests :: "(addr list \<Rightarrow> addr list) \<Rightarrow> HoppCollection \<Rightarrow> HoppCollection" where
  \<comment> \<open>Modelled from the spec: rewrites the array of requests of a collection.\<close>
  "withRequests g c =
     HoppCollection (c_name c) (folders c) (g (requests c)) (headers c) (auth c) (c_id c)"

definition withFolders :: "(HoppCollection list \<Rightarrow> HoppCollection list) \<Rightarrow> HoppCollection \<Rightarrow> HoppCollection" where
  \<comment> \<open>Modelled from the spec: rewrites the array of folders of a collection.\<close>
  "withFolders g c =
     HoppCollection (c_name c) (g (folders c)) (requests c) (headers c) (auth c) (c_id c)"

definition requestsAt :: "HoppCollection list \<Rightarrow> string \<Rightarrow> addr list" where
  \<comment> \<open>Modelled from the spec: the helper \<open>getRequestsByPath\<close> is not among the sources;
      the requests of the collection at an index path, none when the path leads nowhere.\<close>
  "requestsAt tree p = (case navigate tree (parsePath p) of None \<Rightarrow> [] | Some c \<Rightarrow> requests c)"

definition arrayStore :: Store where
  \<comment> \<open>Modelled from the spec: the collection store is not among the sources. Collections
      and requests sit in nested arrays and are addressed by their positions: an addition
      goes to the end of its array, a removal closes the gap, an edit replaces in place,
      a move is a removal followed by an addition at the destination.\<close>
  "arrayStore =
     \<lparr> addRESTCollection = (\<lambda>c tree. tree @ [collectionOf c]),
       addRESTFolder = (\<lambda>n p tree.
         inCollection p
           (withFolders (\<lambda>fs. fs @ [HoppCollection n [] [] []
                                       \<lparr> authType = ''inherit'', authActive = False \<rparr> None]))
           tree),
       appendRESTCollections = (\<lambda>cs tree. tree @ cs),
       editRESTCollection = (\<lambda>i c tree.
         case index_array tree i of
           None \<Rightarrow> tree
         | Some old \<Rightarrow> tree [nat (the i) := collectionOf c]),
       editRESTFolder = (\<lambda>p c tree. inCollection p (\<lambda>old. collectionOf c) tree),
       editRESTRequest = (\<lambda>p i r tree.
         inCollection p
           (withRequests (\<lambda>rs. case index_array rs i of
                                  None \<Rightarrow> rs
                                | Some old \<Rightarrow> rs [nat (the i) := r]))
           tree),
       moveRESTFolder = (\<lambda>p dest tree.
         case navigate tree (parsePath p) of
           None \<Rightarrow> tree
         | Some c \<Rightarrow>
             atPath (butlast (parsePath p)) (removeAt (last (parsePath p)))
               (case dest of
                  None \<Rightarrow> tree @ [c]
                | Some d \<Rightarrow> inCollection d (withFolders (\<lambda>fs. fs @ [c])) tree)),
       store_moveRESTRequest = (\<lambda>p i dest tree.
         case index_array (requestsAt tree p) i of
           None \<Rightarrow> tree
         | Some r \<Rightarrow>
             inCollection dest (withRequests (\<lambda>rs. rs @ [r]))
               (inCollection p (withRequests (removeAt i)) tree)),
       navigateToFolderWithIndexPath = navigate,
       store_removeRESTCollection = (\<lambda>i cid tree. removeAt i tree),
       removeRESTFolder = (\<lambda>p cid tree.
         atPath (butlast (parsePath p)) (removeAt (last (parsePath p))) tree),
       store_removeRESTRequest = (\<lambda>p i rid tree.
         inCollection p (withRequests (removeAt i)) tree),
       saveRESTRequestAs = (\<lambda>p r tree.
         (length (requestsAt tree p),
          inCollection p (withRequests (\<lambda>rs. rs @ [r])) tree)),
       updateRESTCollectionOrder = (\<lambda>p dest tree.
         atPath (butlast (parsePath p))
           (reorderItems (last (parsePath p))
              (case dest of None \<Rightarrow> None | Some d \<Rightarrow> Some (last (parsePath d))))
           tree),
       updateRESTRequestOrder = (\<lambda>i dest p tree.
         inCollection p (withRequests (reorderItems i dest)) tree),
       getRequestsByPath = requestsAt \<rparr>"

section \<open>Example runs\<close>

text \<open>
  A small workspace: collection \<open>0\<close> holds three requests, collection \<open>1\<close> none. A
  client asks for the personal workspace and then for a handle to each request.
\<close>

definition theWorkspace :: "(error + Workspace Handle) \<times> State \<Rightarrow> Workspace Handle" where
  \<comment> \<open>the workspace handle a call returned (a handle that is never valid when the call failed)\<close>
  "theWorkspace r = (case fst r of Inl e \<Rightarrow> (\<lambda>w. invalid ''NO_HANDLE'') | Inr h \<Rightarrow> h)"

definition noComputed :: "'d Computed" where
  "noComputed = \<lparr> getter = (\<lambda>w. invalid ''NO_HANDLE''), read = (\<lambda>w. invalid ''NO_HANDLE''),
                  touch = (\<lambda>w. w), slot = 0 \<rparr>"

definition theComputed :: "(error + 'd Computed) \<times> State \<Rightarrow> 'd Computed" where
  \<comment> \<open>the computed ref a call returned (one that is never valid when the call failed)\<close>
  "theComputed r = (case fst r of Inl e \<Rightarrow> noComputed | Inr c \<Rightarrow> c)"

definition theHandle :: "(error + 'd Computed) \<times> State \<Rightarrow> 'd Handle" where
  \<comment> \<open>reading \<open>.value\<close> of the computed ref a call returned\<close>
  "theHandle r = read (theComputed r)"

definition exampleCollection :: "string \<Rightarrow> addr list \<Rightarrow> HoppCollection" where
  "exampleCollection n rs =
     HoppCollection n [] rs [] \<lparr> authType = ''inherit'', authActive = False \<rparr> None"

definition exampleState :: State where
  "exampleState =
     \<lparr> restCollectionState = [exampleCollection ''a'' [0, 1, 2], exampleCollection ''b'' []],
       requestObjects = [[(''name'', ''r0''), (''endpoint'', ''e0'')],
                         [(''name'', ''r1''), (''endpoint'', ''e1'')],
                         [(''name'', ''r2''), (''endpoint'', ''e2'')]],
       handleRefData = [], issuedHandles = [], workspaceRefs = [],
       collectionCaches = [], requestCaches = [] \<rparr>"

definition ex_ws :: "(error + Workspace Handle) \<times> State" where
  "ex_ws = getWorkspaceHandle ''personal'' exampleState"

definition ex_h0 :: "(error + WorkspaceRequest Computed) \<times> State" where
  "ex_h0 = getRequestHandle arrayStore (theWorkspace ex_ws) ''0/0'' (snd ex_ws)"

definition ex_h1 :: "(error + WorkspaceRequest Computed) \<times> State" where
  "ex_h1 = getRequestHandle arrayStore (theWorkspace ex_ws) ''0/1'' (snd ex_h0)"

definition ex_h2 :: "(error + WorkspaceRequest Computed) \<times> State" where
  "ex_h2 = getRequestHandle arrayStore (theWorkspace ex_ws) ''0/2'' (snd ex_h1)"

definition ex_c0 :: "(error + WorkspaceCollection Computed) \<times> State" where
  "ex_c0 = getCollectionHandle arrayStore (theWorkspace ex_ws) ''0'' (snd ex_h2)"

definition exampleNewCollection :: NewCollection where
  "exampleNewCollection = \<lparr> n_name = ''c'', n_fields = partial_of None \<rparr>"

definition ex_root :: "(error + WorkspaceCollection Computed) \<times> State" where
  "ex_root = createRESTRootCollection arrayStore (theWorkspace ex_ws) exampleNewCollection (snd ex_c0)"

definition ex_import :: "(error + WorkspaceCollection Computed) \<times> State" where
  "ex_import = importRESTCollections arrayStore (theWorkspace ex_ws) [exampleCollection ''i'' []] (snd ex_c0)"

definition ex_child :: "(error + WorkspaceCollection Computed) \<times> State" where
  "ex_child = createRESTChildCollection arrayStore (theHandle ex_c0) exampleNewCollection (snd ex_c0)"

definition ex_req :: "(error + WorkspaceRequest Computed) \<times> State" where
  "ex_req = createRESTRequest arrayStore (theHandle ex_c0) 1 (snd ex_c0)"

text \<open>
  The state after the four handles were issued, with the object the workspace ref holds
  rewritten to an invalid value, as \<open>removeRESTRequest\<close> rewrites the object of a request
  handle. In \<open>ex_flipped\<close> no issued handle has been read before; in \<open>ex_stale\<close> the
  holder has read the collection handle and the first request handle before the
  workspace object is rewritten.
\<close>

definition ex_flipped :: State where
  "ex_flipped = (snd ex_c0) \<lparr> workspaceRefs := [invalid ''WORKSPACE_CLOSED''] \<rparr>"

definition ex_stale :: State where
  "ex_stale =
     (touch (theComputed ex_h0) (touch (theComputed ex_c0) (snd ex_c0)))
       \<lparr> workspaceRefs := [invalid ''WORKSPACE_CLOSED''] \<rparr>"

text \<open>
  A client asks a second time for a handle to request \<open>0/0\<close> and then removes the
  request through the first handle.
\<close>

definition ex_h0b :: "(error + WorkspaceRequest Computed) \<times> State" where
  "ex_h0b = getRequestHandle arrayStore (theWorkspace ex_ws) ''0/0'' (snd ex_h2)"

definition ex_removed :: "(error + unit) \<times> State" where
  "ex_removed = removeRESTRequest arrayStore (theHandle ex_h0) (snd ex_h0b)"

text \<open>Calls on the three issued request handles.\<close>

definition ex_moved :: "(error + unit) \<times> State" where
  "ex_moved = moveRESTRequest arrayStore (theHandle ex_h0) ''1'' (snd ex_h2)"

definition ex_reordered :: "(error + unit) \<times> State" where
  "ex_reordered = reorderRESTRequest arrayStore (theHandle ex_h1) ''0'' (Some ''0/0'') (snd ex_h2)"


text \<open>
  A workspace of eleven root collections, the last one holding a request: a client takes a
  handle to request \<open>10/0\<close> and then removes collection \<open>1\<close>.
\<close>

definition elevenCollections :: State where
  "elevenCollections =
     \<lparr> restCollectionState =
         replicate 10 (exampleCollection ''c'' []) @ [exampleCollection ''k'' [0]],
       requestObjects = [[(''name'', ''r0'')]],
       handleRefData = [], issuedHandles = [], workspaceRefs = [],
       collectionCaches = [], requestCaches = [] \<rparr>"

definition ex11_ws :: "(error + Workspace Handle) \<times> State" where
  "ex11_ws = getWorkspaceHandle ''personal'' elevenCollections"

definition ex11_h :: "(error + WorkspaceRequest Computed) \<times> State" where
  "ex11_h = getRequestHandle arrayStore (theWorkspace ex11_ws) ''10/0'' (snd ex11_ws)"

definition ex11_c :: "(error + WorkspaceCollection Computed) \<times> State" where
  "ex11_c = getCollectionHandle arrayStore (theWorkspace ex11_ws) ''1'' (snd ex11_h)"

definition ex11_removed :: "(error + unit) \<times> State" where
  "ex11_removed = removeRESTCollection arrayStore (theHandle ex11_c) (snd ex11_c)"

section \<open>Properties of the registry\<close>

text \<open>
  The composite key of a request handle, the keys of the registry's valid entries, and the
  two facts every reachable registry satisfies: its entries are allocated cells, and no
  key occurs twice among its valid entries.
\<close>

definition keyOf :: "WorkspaceRequest \<Rightarrow> string \<times> string \<times> string \<times> string" where
  "keyOf d = (providerID d, workspaceID d, collectionID d, requestID d)"

definition issuedKeys ::
  "WorkspaceRequest HandleState list \<Rightarrow> addr list \<Rightarrow> (string \<times> string \<times> string \<times> string) list" where
  "issuedKeys cells issued =
     concat (map (\<lambda>a. case cells ! a of invalid r \<Rightarrow> [] | ok d \<Rightarrow> [keyOf d]) issued)"

definition registryAllocated :: "State \<Rightarrow> bool" where
  "registryAllocated s = list_all (\<lambda>a. a < length (handleRefData s)) (issuedHandles s)"

definition noDuplicateKeys :: "State \<Rightarrow> bool" where
  "noDuplicateKeys s = distinct (issuedKeys (handleRefData s) (issuedHandles s))"



text \<open>
  \<open>inSubtree rID cID\<close>: the index path \<open>rID\<close> lies inside the subtree of the collection
  \<open>cID\<close>, that is, the segments of \<open>cID\<close> are the first segments of \<open>rID\<close>.
\<close>

definition inSubtree :: "string \<Rightarrow> string \<Rightarrow> bool" where
  "inSubtree rID cID =
     (take (length (split_str CHR ''/'' cID)) (split_str CHR ''/'' rID) = split_str CHR ''/'' cID)"

lemma theComputed_eq: "\<not> isl (fst r) \<Longrightarrow> fst r = Inr (theComputed r)"
  by (cases "fst r") (simp_all add: theComputed_def)

section \<open>Decimal strings\<close>

text \<open>
  \<open>string_of_nat\<close> writes the decimal digits of a number, and \<open>parseInt\<close> reads such a
  string back to the number: an index put into an ID is the index the provider parses
  out of it.
\<close>

lemma digit_value_digit:
  assumes "n < 10"
  shows "digit_value (''0123456789'' ! n) = Some n \<and> \<not> is_ws (''0123456789'' ! n) \<and>
         ''0123456789'' ! n \<noteq> CHR ''-'' \<and> ''0123456789'' ! n \<noteq> CHR ''+'' \<and>
         ''0123456789'' ! n \<noteq> CHR ''x'' \<and> ''0123456789'' ! n \<noteq> CHR ''X'' \<and>
         ''0123456789'' ! n \<noteq> CHR ''/''"
proof -
  have each: "\<forall>k \<in> set [0 ..< 10].
      digit_value (''0123456789'' ! k) = Some k \<and> \<not> is_ws (''0123456789'' ! k) \<and>
         ''0123456789'' ! k \<noteq> CHR ''-'' \<and> ''0123456789'' ! k \<noteq> CHR ''+'' \<and>
         ''0123456789'' ! k \<noteq> CHR ''x'' \<and> ''0123456789'' ! k \<noteq> CHR ''X'' \<and>
         ''0123456789'' ! k \<noteq> CHR ''/''"
    by code_simp
  have "n \<in> set [0 ..< 10]"
    using assms by simp
  then show ?thesis using each by blast
qed

lemma string_of_nat_digits:
  "string_of_nat n = map (\<lambda>d. ''0123456789'' ! d) (decimal_digits n)"
proof (induction n rule: decimal_digits.induct)
  case (1 n)
  show ?case
  proof (cases "n < 10")
    case True
    then show ?thesis
      by (subst string_of_nat.simps, subst decimal_digits.simps) simp
  next
    case False
    then show ?thesis
      using 1 by (subst string_of_nat.simps, subst decimal_digits.simps) simp
  qed
qed

lemma decimal_digits_small: "d \<in> set (decimal_digits n) \<Longrightarrow> d < 10"
proof (induction n rule: decimal_digits.induct)
  case (1 n)
  show ?case
  proof (cases "n < 10")
    case True
    then show ?thesis using 1(2) by (subst (asm) decimal_digits.simps) simp
  next
    case False
    have "d \<in> set (decimal_digits (n div 10)) \<or> d = n mod 10"
      using 1(2) False by (subst (asm) decimal_digits.simps) auto
    then show ?thesis using 1(1) [OF False] by auto
  qed
qed

lemma decimal_digits_nonempty: "decimal_digits n \<noteq> []"
  by (subst decimal_digits.simps) simp

lemma leading_digits_map:
  "\<forall>d \<in> set ds. d < 10 \<Longrightarrow>
   leading_digits 10 (map (\<lambda>d. ''0123456789'' ! d) ds) = ds"
proof (induction ds)
  case Nil
  show ?case by simp
next
  case (Cons d ds)
  have "d < 10" using Cons.prems by simp
  then have "digit_value (''0123456789'' ! d) = Some d" using digit_value_digit by blast
  then show ?case using Cons \<open>d < 10\<close> by simp
qed

lemma foldl_digits:
  "foldl (\<lambda>acc d. acc * 10 + d) a (decimal_digits n) = a * 10 ^ length (decimal_digits n) + n"
proof (induction n arbitrary: a rule: decimal_digits.induct)
  case (1 n)
  show ?case
  proof (cases "n < 10")
    case True
    have "decimal_digits n = [n]" using True by (subst decimal_digits.simps) simp
    then show ?thesis by simp
  next
    case False
    have eq: "decimal_digits n = decimal_digits (n div 10) @ [n mod 10]"
      using False by (subst decimal_digits.simps) simp
    have "foldl (\<lambda>acc d. acc * 10 + d) a (decimal_digits n) =
          foldl (\<lambda>acc d. acc * 10 + d) a (decimal_digits (n div 10)) * 10 + n mod 10"
      unfolding eq by simp
    also have "\<dots> = (a * 10 ^ length (decimal_digits (n div 10)) + n div 10) * 10 + n mod 10"
      using 1 [OF False] by simp
    also have "\<dots> = a * 10 ^ length (decimal_digits n) + n"
      unfolding eq by (simp add: algebra_simps)
    finally show ?thesis .
  qed
qed

lemma parseInt_string_of_nat: "parseInt (string_of_nat n) = Some (int n)"
proof -
  let ?ds = "decimal_digits n"
  obtain d ds where ds: "?ds = d # ds" using decimal_digits_nonempty by (cases ?ds) auto
  have small: "\<forall>x \<in> set ?ds. x < 10" using decimal_digits_small by blast
  have d: "d < 10" using small ds by simp
  have s: "string_of_nat n = (''0123456789'' ! d) # map (\<lambda>d. ''0123456789'' ! d) ds"
    by (simp add: string_of_nat_digits ds)
  have nohex: "take 2 (string_of_nat n) \<noteq> ''0x'' \<and> take 2 (string_of_nat n) \<noteq> ''0X''"
  proof (cases ds)
    case Nil
    then show ?thesis by (simp add: s)
  next
    case (Cons e es)
    then have "e < 10" using small ds by simp
    then show ?thesis using digit_value_digit [of e] by (simp add: s Cons)
  qed
  have lead: "leading_digits 10 (string_of_nat n) = ?ds"
    using leading_digits_map [OF small] by (simp add: string_of_nat_digits)
  have val: "digits_value 10 ?ds = n"
    using foldl_digits [of 0 n] by (simp add: digits_value_def)
  have nows: "dropWhile is_ws (string_of_nat n) = string_of_nat n"
    using digit_value_digit [OF d] by (simp add: s)
  have nosign: "take 1 (string_of_nat n) \<noteq> ''-'' \<and> take 1 (string_of_nat n) \<noteq> ''+''"
    using digit_value_digit [OF d] by (simp add: s)
  show ?thesis
    unfolding parseInt_def nows Let_def
    using nohex nosign lead val decimal_digits_nonempty [of n]
    by simp
qed

section \<open>Removing a request\<close>

lemma invalidateRequest_length [simp]:
  "length (invalidateRequest R a cells) = length cells"
  by (simp add: invalidateRequest_def split: HandleState.split)

lemma fold_invalidateRequest_length [simp]:
  "length (fold (invalidateRequest R) as cells) = length cells"
  by (induction as arbitrary: cells) simp_all

lemma invalidateRequest_nth:
  "i < length cells \<Longrightarrow>
   invalidateRequest R a cells ! i =
     (case cells ! i of
        invalid r \<Rightarrow> invalid r
      | ok d \<Rightarrow> if i = a \<and> requestID d = R then invalid ''REQUEST_INVALIDATED'' else ok d)"
  by (cases "i = a") (auto simp: invalidateRequest_def split: HandleState.split)

lemma fold_invalidateRequest_nth:
  "i < length cells \<Longrightarrow>
   fold (invalidateRequest R) as cells ! i =
     (case cells ! i of
        invalid r \<Rightarrow> invalid r
      | ok d \<Rightarrow> if i \<in> set as \<and> requestID d = R then invalid ''REQUEST_INVALIDATED'' else ok d)"
proof (induction as arbitrary: cells)
  case Nil
  then show ?case by (simp split: HandleState.split)
next
  case (Cons a as)
  have len: "i < length (invalidateRequest R a cells)" using Cons.prems by simp
  show ?case
    using Cons.IH [OF len] invalidateRequest_nth [OF Cons.prems, of R a]
    by (auto split: HandleState.split)
qed

text \<open>
  What \<open>removeRESTRequest\<close> does to the cells, for every store. Given a valid request
  handle whose request ID is \<open>R\<close>, it succeeds; the registry lists the same cells as
  before, no cell is added or dropped, and the request objects are untouched. A cell
  that the registry lists and that was valid with \<open>requestID = R\<close> now reads
  \<open>{type: "invalid", reason: "REQUEST_INVALIDATED"}\<close>; every other cell (another request
  ID, already invalid, or not listed in the registry) reads as before.
\<close>

lemma removeRESTRequest_cells:
  assumes "isValidRequestHandle requestHandle this_providerID ''personal'' s"
    and "a < length (handleRefData s)"
  shows "fst (removeRESTRequest S requestHandle s) = Inr () \<and>
         issuedHandles (snd (removeRESTRequest S requestHandle s)) = issuedHandles s \<and>
         length (handleRefData (snd (removeRESTRequest S requestHandle s))) = length (handleRefData s) \<and>
         requestObjects (snd (removeRESTRequest S requestHandle s)) = requestObjects s \<and>
         handleRefData (snd (removeRESTRequest S requestHandle s)) ! a =
           (case handleRefData s ! a of
              invalid r \<Rightarrow> invalid r
            | ok d \<Rightarrow>
                if a \<in> set (issuedHandles s) \<and> requestID d = requestID (data (requestHandle s))
                then invalid ''REQUEST_INVALIDATED''
                else ok d)"
  using assms
  by (simp add: removeRESTRequest_def Let_def fold_invalidateRequest_nth)

text \<open>
  C4. The claim: after \<open>removeRESTRequest\<close> succeeds on a handle with request ID \<open>R\<close>,
  every previously issued valid request handle whose request ID is \<open>R\<close> reads
  \<open>{type: "invalid", reason: "REQUEST_INVALIDATED"}\<close>. The code does this for the cells
  the registry lists, and a handle can be issued without being listed: \<open>getRequestHandle\<close>
  and \<open>createRESTRequest\<close> make a fresh cell on every call and push it only when no valid
  entry carries its key. In the example workspace a client holds the handles of \<open>0/0\<close>,
  \<open>0/1\<close> and \<open>0/2\<close>, asks again for \<open>0/0\<close> and gets a second valid handle, over cell
  \<open>3\<close>, while the registry still lists the cells \<open>0\<close>, \<open>1\<close> and \<open>2\<close>. Removing the
  request through the first handle succeeds, takes the request out of collection \<open>0\<close>
  and turns the first handle into \<open>REQUEST_INVALIDATED\<close>; the second handle still reads
  \<open>ok\<close> with request ID \<open>0/0\<close> and still passes the validity check.
\<close>

theorem removeRESTRequest_misses_unregistered_handle:
  "\<not> isl (fst ex_h0) \<and> \<not> isl (fst ex_h0b) \<and>
   issuedHandles (snd ex_h0b) = [0, 1, 2] \<and>
   theHandle ex_h0 (snd ex_h0b) =
     ok \<lparr> providerID = this_providerID, workspaceID = ''personal'',
          collectionID = ''0'', requestID = ''0/0'', request = 0 \<rparr> \<and>
   theHandle ex_h0b (snd ex_h0b) =
     ok \<lparr> providerID = this_providerID, workspaceID = ''personal'',
          collectionID = ''0'', requestID = ''0/0'', request = 0 \<rparr> \<and>
   fst ex_removed = Inr () \<and>
   map requests (restCollectionState (snd ex_removed)) = [[1, 2], []] \<and>
   issuedHandles (snd ex_removed) = [0, 1, 2] \<and>
   theHandle ex_h0 (snd ex_removed) = invalid ''REQUEST_INVALIDATED'' \<and>
   theHandle ex_h0b (snd ex_removed) =
     ok \<lparr> providerID = this_providerID, workspaceID = ''personal'',
          collectionID = ''0'', requestID = ''0/0'', request = 0 \<rparr> \<and>
   isValidRequestHandle (theHandle ex_h0b) this_providerID ''personal'' (snd ex_removed)"
  by code_simp

section \<open>Handles are validated first\<close>

text \<open>
  C5. Each of the eleven mutating methods first validates the handle it is given against
  the provider ID \<open>PERSONAL_WORKSPACE_PROVIDER\<close> and the workspace ID \<open>personal\<close>. When
  that handle is not valid the method returns a \<open>Left\<close> with an error code and the whole
  state, the collection tree included, is as before.
\<close>

theorem invalid_handle_rejected:
  "(\<not> isValidWorkspaceHandle wh this_providerID ''personal'' s \<longrightarrow>
      createRESTRootCollection S wh nc s = (Inl INVALID_WORKSPACE_HANDLE, s)) \<and>
   (\<not> isValidCollectionHandle ch this_providerID ''personal'' s \<longrightarrow>
      createRESTChildCollection S ch nc s = (Inl INVALID_COLLECTION_HANDLE, s) \<and>
      updateRESTCollection S ch uc s = (Inl INVALID_COLLECTION_HANDLE, s) \<and>
      removeRESTCollection S ch s = (Inl INVALID_COLLECTION_HANDLE, s) \<and>
      createRESTRequest S ch nr s = (Inl INVALID_COLLECTION_HANDLE, s) \<and>
      moveRESTCollection S ch dc s = (Inl INVALID_COLLECTION_HANDLE, s) \<and>
      reorderRESTCollection S ch dc s = (Inl INVALID_COLLECTION_HANDLE, s)) \<and>
   (\<not> isValidRequestHandle rh this_providerID ''personal'' s \<longrightarrow>
      updateRESTRequest S rh ur s = (Inl INVALID_REQUEST_HANDLE, s) \<and>
      removeRESTRequest S rh s = (Inl INVALID_REQUEST_HANDLE, s) \<and>
      moveRESTRequest S rh d s = (Inl INVALID_REQUEST_HANDLE, s) \<and>
      reorderRESTRequest S rh d dr s = (Inl INVALID_REQUEST_HANDLE, s))"
  by (simp add: createRESTRootCollection_def createRESTChildCollection_def
      updateRESTCollection_def removeRESTCollection_def createRESTRequest_def
      moveRESTCollection_def reorderRESTCollection_def updateRESTRequest_def
      removeRESTRequest_def moveRESTRequest_def reorderRESTRequest_def)

theorem invalid_handle_rejected_witness:
  "\<not> isValidWorkspaceHandle (theWorkspace ex_ws) this_providerID ''personal'' ex_flipped \<and>
   \<not> isValidCollectionHandle (theHandle ex_c0) this_providerID ''personal'' ex_flipped \<and>
   \<not> isValidRequestHandle (theHandle ex_h0) this_providerID ''personal'' ex_flipped \<and>
   createRESTRootCollection arrayStore (theWorkspace ex_ws) exampleNewCollection ex_flipped =
     (Inl INVALID_WORKSPACE_HANDLE, ex_flipped) \<and>
   createRESTChildCollection arrayStore (theHandle ex_c0) exampleNewCollection ex_flipped =
     (Inl INVALID_COLLECTION_HANDLE, ex_flipped) \<and>
   updateRESTCollection arrayStore (theHandle ex_c0) (partial_of None) ex_flipped =
     (Inl INVALID_COLLECTION_HANDLE, ex_flipped) \<and>
   removeRESTCollection arrayStore (theHandle ex_c0) ex_flipped =
     (Inl INVALID_COLLECTION_HANDLE, ex_flipped) \<and>
   createRESTRequest arrayStore (theHandle ex_c0) 1 ex_flipped =
     (Inl INVALID_COLLECTION_HANDLE, ex_flipped) \<and>
   moveRESTCollection arrayStore (theHandle ex_c0) None ex_flipped =
     (Inl INVALID_COLLECTION_HANDLE, ex_flipped) \<and>
   reorderRESTCollection arrayStore (theHandle ex_c0) None ex_flipped =
     (Inl INVALID_COLLECTION_HANDLE, ex_flipped) \<and>
   updateRESTRequest arrayStore (theHandle ex_h0) [(''name'', ''n'')] ex_flipped =
     (Inl INVALID_REQUEST_HANDLE, ex_flipped) \<and>
   removeRESTRequest arrayStore (theHandle ex_h0) ex_flipped =
     (Inl INVALID_REQUEST_HANDLE, ex_flipped) \<and>
   moveRESTRequest arrayStore (theHandle ex_h0) ''1'' ex_flipped =
     (Inl INVALID_REQUEST_HANDLE, ex_flipped) \<and>
   reorderRESTRequest arrayStore (theHandle ex_h0) ''0'' None ex_flipped =
     (Inl INVALID_REQUEST_HANDLE, ex_flipped)"
proof -
  have w: "\<not> isValidWorkspaceHandle (theWorkspace ex_ws) this_providerID ''personal'' ex_flipped"
    by code_simp
  have c: "\<not> isValidCollectionHandle (theHandle ex_c0) this_providerID ''personal'' ex_flipped"
    by code_simp
  have r: "\<not> isValidRequestHandle (theHandle ex_h0) this_providerID ''personal'' ex_flipped"
    by code_simp
  show ?thesis
    using w c r
      invalid_handle_rejected [where wh = "theWorkspace ex_ws" and ch = "theHandle ex_c0"
        and rh = "theHandle ex_h0" and s = ex_flipped and S = arrayStore
        and nc = exampleNewCollection and uc = "partial_of None" and nr = 1 and dc = None
        and ur = "[(''name'', ''n'')]" and d = "''1''" and dr = None]
      invalid_handle_rejected [where rh = "theHandle ex_h0" and s = ex_flipped
        and S = arrayStore and d = "''0''" and dr = None]
    by blast
qed

section \<open>Issued handles follow their owner\<close>

text \<open>
  What each of the six issuing methods returns: a computed ref over a fresh slot, whose
  getter yields the invalid value whenever the owner does not pass the check.
\<close>

lemma cached_fresh [simp]: "cached (cs @ [None]) (length cs) = None"
  by (simp add: cached_def)

lemma computedCollection_sel [simp]:
  "slot (computedCollection k g) = k"
  "getter (computedCollection k g) = g"
  by (simp_all add: computedCollection_def)

lemma computedCollection_read:
  "read (computedCollection k g) w =
     (case cached (collectionCaches w) k of None \<Rightarrow> g w | Some v \<Rightarrow> v)"
  by (simp add: computedCollection_def)

lemma computedRequest_sel [simp]:
  "slot (computedRequest k g) = k"
  "getter (computedRequest k g) = (\<lambda>w. deref (g w) w)"
  by (simp_all add: computedRequest_def)

lemma computedRequest_read:
  "read (computedRequest k g) w =
     (case cached (requestCaches w) k of None \<Rightarrow> deref (g w) w | Some v \<Rightarrow> deref v w)"
  by (simp add: computedRequest_def)

lemma deref_InvalidValue [simp]: "deref (InvalidValue r) w = invalid r"
  by (simp add: deref_def)

lemma deref_CellValue [simp]: "deref (CellValue a) w = handleRefData w ! a"
  by (simp add: deref_def)

lemma createRESTRootCollection_issues:
  assumes "fst (createRESTRootCollection S wh nc s) = Inr c"
  shows "\<exists>g. c = computedCollection (length (collectionCaches s)) g \<and>
             collectionCaches (snd (createRESTRootCollection S wh nc s)) = collectionCaches s @ [None] \<and>
             (\<forall>w. \<not> isValidWorkspaceHandle wh this_providerID ''personal'' w \<longrightarrow>
                  g w = invalid ''WORKSPACE_INVALIDATED'')"
  using assms
  by (cases "isValidWorkspaceHandle wh this_providerID ''personal'' s")
     (auto simp: createRESTRootCollection_def Let_def)

lemma importRESTCollections_issues:
  assumes "fst (importRESTCollections S wh cs s) = Inr c"
  shows "\<exists>g. c = computedCollection (length (collectionCaches s)) g \<and>
             collectionCaches (snd (importRESTCollections S wh cs s)) = collectionCaches s @ [None] \<and>
             (\<forall>w. \<not> isValidWorkspaceHandle wh this_providerID ''personal'' w \<longrightarrow>
                  g w = invalid ''WORKSPACE_INVALIDATED'')"
  using assms
  by (cases "isValidWorkspaceHandle wh this_providerID ''personal'' s"; cases cs)
     (auto simp: importRESTCollections_def Let_def)

lemma getCollectionHandle_issues:
  assumes "fst (getCollectionHandle S wh cID s) = Inr c"
  shows "\<exists>g. c = computedCollection (length (collectionCaches s)) g \<and>
             collectionCaches (snd (getCollectionHandle S wh cID s)) = collectionCaches s @ [None] \<and>
             (\<forall>w. \<not> isValidWorkspaceHandle wh this_providerID ''personal'' w \<longrightarrow>
                  g w = invalid ''WORKSPACE_INVALIDATED'')"
  using assms
  by (cases "isValidWorkspaceHandle wh this_providerID ''personal'' s"; cases "cID = []";
      cases "navigateToFolderWithIndexPath S (restCollectionState s)
               (map parseInt (split_str CHR ''/'' cID))")
     (auto simp: getCollectionHandle_def Let_def)

lemma createRESTChildCollection_issues:
  assumes "fst (createRESTChildCollection S ch nc s) = Inr c"
  shows "\<exists>g. c = computedCollection (length (collectionCaches s)) g \<and>
             collectionCaches (snd (createRESTChildCollection S ch nc s)) = collectionCaches s @ [None] \<and>
             (\<forall>w. \<not> isValidCollectionHandle ch this_providerID ''personal'' w \<longrightarrow>
                  g w = invalid ''COLLECTION_INVALIDATED'')"
  using assms
  by (cases "isValidCollectionHandle ch this_providerID ''personal'' s")
     (auto simp: createRESTChildCollection_def Let_def)

lemma getRequestHandle_issues:
  assumes "fst (getRequestHandle S wh rID s) = Inr c"
  shows "\<exists>g. c = computedRequest (length (requestCaches s)) g \<and>
             requestCaches (snd (getRequestHandle S wh rID s)) = requestCaches s @ [None] \<and>
             (\<forall>w. \<not> isValidWorkspaceHandle wh this_providerID ''personal'' w \<longrightarrow>
                  g w = InvalidValue ''WORKSPACE_INVALIDATED'')"
  using assms
  by (auto simp: getRequestHandle_def Let_def split: if_splits option.splits)

lemma createRESTRequest_issues:
  assumes "fst (createRESTRequest S ch nr s) = Inr c"
  shows "\<exists>g. c = computedRequest (length (requestCaches s)) g \<and>
             requestCaches (snd (createRESTRequest S ch nr s)) = requestCaches s @ [None] \<and>
             (\<forall>w. \<not> isValidCollectionHandle ch this_providerID ''personal'' w \<longrightarrow>
                  g w = InvalidValue ''COLLECTION_INVALIDATED'')"
  using assms
  by (cases "isValidCollectionHandle ch this_providerID ''personal'' s")
     (auto simp: createRESTRequest_def Let_def)

lemma computedCollection_follows:
  assumes "c = computedCollection (length cs) g" and "cs' = cs @ [None]"
    and "\<forall>w. \<not> V w \<longrightarrow> g w = invalid R"
  shows "cached cs' (slot c) = None \<and>
         (\<not> V w \<longrightarrow> getter c w = invalid R) \<and>
         (cached (collectionCaches w) (slot c) = None \<longrightarrow> read c w = getter c w) \<and>
         (\<forall>v. cached (collectionCaches w) (slot c) = Some v \<longrightarrow> read c w = v)"
  using assms by (simp add: computedCollection_read)

lemma computedRequest_follows:
  assumes "c = computedRequest (length cs) g" and "cs' = cs @ [None]"
    and "\<forall>w. \<not> V w \<longrightarrow> g w = InvalidValue R"
  shows "cached cs' (slot c) = None \<and>
         (\<not> V w \<longrightarrow> getter c w = invalid R) \<and>
         (cached (requestCaches w) (slot c) = None \<longrightarrow> read c w = getter c w) \<and>
         (\<forall>v. cached (requestCaches w) (slot c) = Some v \<longrightarrow> read c w = deref v w)"
  using assms by (simp add: computedRequest_read)


lemma createRESTRootCollection_follows:
  assumes "fst (createRESTRootCollection S wh nc s) = Inr c"
  shows "cached (collectionCaches (snd (createRESTRootCollection S wh nc s))) (slot c) = None \<and>
         (\<not> isValidWorkspaceHandle wh this_providerID ''personal'' w \<longrightarrow>
            getter c w = invalid ''WORKSPACE_INVALIDATED'') \<and>
         (cached (collectionCaches w) (slot c) = None \<longrightarrow> read c w = getter c w) \<and>
         (\<forall>v. cached (collectionCaches w) (slot c) = Some v \<longrightarrow> read c w = v)"
proof -
  from createRESTRootCollection_issues [OF assms] obtain g
    where g: "c = computedCollection (length (collectionCaches s)) g"
      "collectionCaches (snd (createRESTRootCollection S wh nc s)) = collectionCaches s @ [None]"
      "\<forall>w. \<not> isValidWorkspaceHandle wh this_providerID ''personal'' w \<longrightarrow> g w = invalid ''WORKSPACE_INVALIDATED''"
    by blast
  show ?thesis by (rule computedCollection_follows [OF g])
qed

lemma importRESTCollections_follows:
  assumes "fst (importRESTCollections S wh cs s) = Inr c"
  shows "cached (collectionCaches (snd (importRESTCollections S wh cs s))) (slot c) = None \<and>
         (\<not> isValidWorkspaceHandle wh this_providerID ''personal'' w \<longrightarrow>
            getter c w = invalid ''WORKSPACE_INVALIDATED'') \<and>
         (cached (collectionCaches w) (slot c) = None \<longrightarrow> read c w = getter c w) \<and>
         (\<forall>v. cached (collectionCaches w) (slot c) = Some v \<longrightarrow> read c w = v)"
proof -
  from importRESTCollections_issues [OF assms] obtain g
    where g: "c = computedCollection (length (collectionCaches s)) g"
      "collectionCaches (snd (importRESTCollections S wh cs s)) = collectionCaches s @ [None]"
      "\<forall>w. \<not> isValidWorkspaceHandle wh this_providerID ''personal'' w \<longrightarrow> g w = invalid ''WORKSPACE_INVALIDATED''"
    by blast
  show ?thesis by (rule computedCollection_follows [OF g])
qed

lemma getCollectionHandle_follows:
  assumes "fst (getCollectionHandle S wh cID s) = Inr c"
  shows "cached (collectionCaches (snd (getCollectionHandle S wh cID s))) (slot c) = None \<and>
         (\<not> isValidWorkspaceHandle wh this_providerID ''personal'' w \<longrightarrow>
            getter c w = invalid ''WORKSPACE_INVALIDATED'') \<and>
         (cached (collectionCaches w) (slot c) = None \<longrightarrow> read c w = getter c w) \<and>
         (\<forall>v. cached (collectionCaches w) (slot c) = Some v \<longrightarrow> read c w = v)"
proof -
  from getCollectionHandle_issues [OF assms] obtain g
    where g: "c = computedCollection (length (collectionCaches s)) g"
      "collectionCaches (snd (getCollectionHandle S wh cID s)) = collectionCaches s @ [None]"
      "\<forall>w. \<not> isValidWorkspaceHandle wh this_providerID ''personal'' w \<longrightarrow> g w = invalid ''WORKSPACE_INVALIDATED''"
    by blast
  show ?thesis by (rule computedCollection_follows [OF g])
qed

lemma getRequestHandle_follows:
  assumes "fst (getRequestHandle S wh rID s) = Inr c"
  shows "cached (requestCaches (snd (getRequestHandle S wh rID s))) (slot c) = None \<and>
         (\<not> isValidWorkspaceHandle wh this_providerID ''personal'' w \<longrightarrow>
            getter c w = invalid ''WORKSPACE_INVALIDATED'') \<and>
         (cached (requestCaches w) (slot c) = None \<longrightarrow> read c w = getter c w) \<and>
         (\<forall>v. cached (requestCaches w) (slot c) = Some v \<longrightarrow> read c w = deref v w)"
proof -
  from getRequestHandle_issues [OF assms] obtain g
    where g: "c = computedRequest (length (requestCaches s)) g"
      "requestCaches (snd (getRequestHandle S wh rID s)) = requestCaches s @ [None]"
      "\<forall>w. \<not> isValidWorkspaceHandle wh this_providerID ''personal'' w \<longrightarrow> g w = InvalidValue ''WORKSPACE_INVALIDATED''"
    by blast
  show ?thesis by (rule computedRequest_follows [OF g])
qed

lemma createRESTChildCollection_follows:
  assumes "fst (createRESTChildCollection S ch nc s) = Inr c"
  shows "cached (collectionCaches (snd (createRESTChildCollection S ch nc s))) (slot c) = None \<and>
         (\<not> isValidCollectionHandle ch this_providerID ''personal'' w \<longrightarrow>
            getter c w = invalid ''COLLECTION_INVALIDATED'') \<and>
         (cached (collectionCaches w) (slot c) = None \<longrightarrow> read c w = getter c w) \<and>
         (\<forall>v. cached (collectionCaches w) (slot c) = Some v \<longrightarrow> read c w = v)"
proof -
  from createRESTChildCollection_issues [OF assms] obtain g
    where g: "c = computedCollection (length (collectionCaches s)) g"
      "collectionCaches (snd (createRESTChildCollection S ch nc s)) = collectionCaches s @ [None]"
      "\<forall>w. \<not> isValidCollectionHandle ch this_providerID ''personal'' w \<longrightarrow> g w = invalid ''COLLECTION_INVALIDATED''"
    by blast
  show ?thesis by (rule computedCollection_follows [OF g])
qed

lemma createRESTRequest_follows:
  assumes "fst (createRESTRequest S ch nr s) = Inr c"
  shows "cached (requestCaches (snd (createRESTRequest S ch nr s))) (slot c) = None \<and>
         (\<not> isValidCollectionHandle ch this_providerID ''personal'' w \<longrightarrow>
            getter c w = invalid ''COLLECTION_INVALIDATED'') \<and>
         (cached (requestCaches w) (slot c) = None \<longrightarrow> read c w = getter c w) \<and>
         (\<forall>v. cached (requestCaches w) (slot c) = Some v \<longrightarrow> read c w = deref v w)"
proof -
  from createRESTRequest_issues [OF assms] obtain g
    where g: "c = computedRequest (length (requestCaches s)) g"
      "requestCaches (snd (createRESTRequest S ch nr s)) = requestCaches s @ [None]"
      "\<forall>w. \<not> isValidCollectionHandle ch this_providerID ''personal'' w \<longrightarrow> g w = InvalidValue ''COLLECTION_INVALIDATED''"
    by blast
  show ?thesis by (rule computedRequest_follows [OF g])
qed

text \<open>
  C3, as the code has it. For each of the six methods that return a collection or request handle
  (\<open>createRESTRootCollection\<close>, \<open>importRESTCollections\<close>, \<open>getCollectionHandle\<close>,
  \<open>getRequestHandle\<close>, \<open>createRESTChildCollection\<close>, \<open>createRESTRequest\<close>), and for every
  store and every later state \<open>w\<close>: the returned handle keeps no value when it is
  returned; in a state in which the handle it was derived from does not pass the validity
  check its getter returns \<open>{type: "invalid"}\<close> with the reason \<open>WORKSPACE_INVALIDATED\<close>
  (or \<open>COLLECTION_INVALIDATED\<close>); a read of a handle that keeps no value (never read, or
  marked dirty) yields what the getter returns, so it yields that invalid value without
  any action by the holder; and a read of a handle that keeps a value yields the kept
  value, whatever the state of its owner (for a request handle the kept value is the
  object of a cell, and the read yields the cell as it is now).
\<close>

theorem issued_handle_checks_owner_when_evaluated:
  "(\<forall>c. fst (createRESTRootCollection S wh nc s) = Inr c \<longrightarrow>
        cached (collectionCaches (snd (createRESTRootCollection S wh nc s))) (slot c) = None \<and>
        (\<not> isValidWorkspaceHandle wh this_providerID ''personal'' w \<longrightarrow>
           getter c w = invalid ''WORKSPACE_INVALIDATED'') \<and>
        (cached (collectionCaches w) (slot c) = None \<longrightarrow> read c w = getter c w) \<and>
        (\<forall>v. cached (collectionCaches w) (slot c) = Some v \<longrightarrow> read c w = v)) \<and>
   (\<forall>c. fst (importRESTCollections S wh cs s) = Inr c \<longrightarrow>
        cached (collectionCaches (snd (importRESTCollections S wh cs s))) (slot c) = None \<and>
        (\<not> isValidWorkspaceHandle wh this_providerID ''personal'' w \<longrightarrow>
           getter c w = invalid ''WORKSPACE_INVALIDATED'') \<and>
        (cached (collectionCaches w) (slot c) = None \<longrightarrow> read c w = getter c w) \<and>
        (\<forall>v. cached (collectionCaches w) (slot c) = Some v \<longrightarrow> read c w = v)) \<and>
   (\<forall>c. fst (getCollectionHandle S wh cID s) = Inr c \<longrightarrow>
        cached (collectionCaches (snd (getCollectionHandle S wh cID s))) (slot c) = None \<and>
        (\<not> isValidWorkspaceHandle wh this_providerID ''personal'' w \<longrightarrow>
           getter c w = invalid ''WORKSPACE_INVALIDATED'') \<and>
        (cached (collectionCaches w) (slot c) = None \<longrightarrow> read c w = getter c w) \<and>
        (\<forall>v. cached (collectionCaches w) (slot c) = Some v \<longrightarrow> read c w = v)) \<and>
   (\<forall>c. fst (getRequestHandle S wh rID s) = Inr c \<longrightarrow>
        cached (requestCaches (snd (getRequestHandle S wh rID s))) (slot c) = None \<and>
        (\<not> isValidWorkspaceHandle wh this_providerID ''personal'' w \<longrightarrow>
           getter c w = invalid ''WORKSPACE_INVALIDATED'') \<and>
        (cached (requestCaches w) (slot c) = None \<longrightarrow> read c w = getter c w) \<and>
        (\<forall>v. cached (requestCaches w) (slot c) = Some v \<longrightarrow> read c w = deref v w)) \<and>
   (\<forall>c. fst (createRESTChildCollection S ch nc s) = Inr c \<longrightarrow>
        cached (collectionCaches (snd (createRESTChildCollection S ch nc s))) (slot c) = None \<and>
        (\<not> isValidCollectionHandle ch this_providerID ''personal'' w \<longrightarrow>
           getter c w = invalid ''COLLECTION_INVALIDATED'') \<and>
        (cached (collectionCaches w) (slot c) = None \<longrightarrow> read c w = getter c w) \<and>
        (\<forall>v. cached (collectionCaches w) (slot c) = Some v \<longrightarrow> read c w = v)) \<and>
   (\<forall>c. fst (createRESTRequest S ch nr s) = Inr c \<longrightarrow>
        cached (requestCaches (snd (createRESTRequest S ch nr s))) (slot c) = None \<and>
        (\<not> isValidCollectionHandle ch this_providerID ''personal'' w \<longrightarrow>
           getter c w = invalid ''COLLECTION_INVALIDATED'') \<and>
        (cached (requestCaches w) (slot c) = None \<longrightarrow> read c w = getter c w) \<and>
        (\<forall>v. cached (requestCaches w) (slot c) = Some v \<longrightarrow> read c w = deref v w))"
  using createRESTRootCollection_follows [of S wh nc s _ w]
    importRESTCollections_follows [of S wh cs s _ w]
    getCollectionHandle_follows [of S wh cID s _ w]
    getRequestHandle_follows [of S wh rID s _ w]
    createRESTChildCollection_follows [of S ch nc s _ w]
    createRESTRequest_follows [of S ch nr s _ w]
  by blast

theorem issued_handle_checks_owner_when_evaluated_witness:
  "\<not> isValidWorkspaceHandle (theWorkspace ex_ws) this_providerID ''personal'' ex_flipped \<and>
   \<not> isValidCollectionHandle (theHandle ex_c0) this_providerID ''personal'' ex_flipped \<and>
   fst ex_root = Inr (theComputed ex_root) \<and>
   fst ex_import = Inr (theComputed ex_import) \<and>
   fst ex_c0 = Inr (theComputed ex_c0) \<and>
   fst ex_h0 = Inr (theComputed ex_h0) \<and>
   fst ex_child = Inr (theComputed ex_child) \<and>
   fst ex_req = Inr (theComputed ex_req) \<and>
   cached (collectionCaches ex_flipped) (slot (theComputed ex_root)) = None \<and>
   cached (collectionCaches ex_flipped) (slot (theComputed ex_import)) = None \<and>
   cached (collectionCaches ex_flipped) (slot (theComputed ex_c0)) = None \<and>
   cached (requestCaches ex_flipped) (slot (theComputed ex_h0)) = None \<and>
   cached (collectionCaches ex_flipped) (slot (theComputed ex_child)) = None \<and>
   cached (requestCaches ex_flipped) (slot (theComputed ex_req)) = None \<and>
   read (theComputed ex_root) ex_flipped = invalid ''WORKSPACE_INVALIDATED'' \<and>
   read (theComputed ex_import) ex_flipped = invalid ''WORKSPACE_INVALIDATED'' \<and>
   read (theComputed ex_c0) ex_flipped = invalid ''WORKSPACE_INVALIDATED'' \<and>
   read (theComputed ex_h0) ex_flipped = invalid ''WORKSPACE_INVALIDATED'' \<and>
   read (theComputed ex_child) ex_flipped = invalid ''COLLECTION_INVALIDATED'' \<and>
   read (theComputed ex_req) ex_flipped = invalid ''COLLECTION_INVALIDATED'' \<and>
   cached (collectionCaches ex_stale) (slot (theComputed ex_c0)) =
     Some (ok \<lparr> WorkspaceCollection.providerID = this_providerID, workspaceID = ''personal'',
                collectionID = ''0'', name = ''a'' \<rparr>) \<and>
   read (theComputed ex_c0) ex_stale =
     ok \<lparr> WorkspaceCollection.providerID = this_providerID, workspaceID = ''personal'',
          collectionID = ''0'', name = ''a'' \<rparr> \<and>
   cached (requestCaches ex_stale) (slot (theComputed ex_h0)) = Some (CellValue 0) \<and>
   read (theComputed ex_h0) ex_stale = deref (CellValue 0) ex_stale"
proof -
  have w: "\<not> isValidWorkspaceHandle (theWorkspace ex_ws) this_providerID ''personal'' ex_flipped"
    by code_simp
  have c: "\<not> isValidCollectionHandle (theHandle ex_c0) this_providerID ''personal'' ex_flipped"
    by code_simp
  have "\<not> isl (fst ex_root)" by code_simp
  then have r1: "fst ex_root = Inr (theComputed ex_root)" by (rule theComputed_eq)
  have "\<not> isl (fst ex_import)" by code_simp
  then have r2: "fst ex_import = Inr (theComputed ex_import)" by (rule theComputed_eq)
  have "\<not> isl (fst ex_c0)" by code_simp
  then have r3: "fst ex_c0 = Inr (theComputed ex_c0)" by (rule theComputed_eq)
  have "\<not> isl (fst ex_h0)" by code_simp
  then have r4: "fst ex_h0 = Inr (theComputed ex_h0)" by (rule theComputed_eq)
  have "\<not> isl (fst ex_child)" by code_simp
  then have r5: "fst ex_child = Inr (theComputed ex_child)" by (rule theComputed_eq)
  have "\<not> isl (fst ex_req)" by code_simp
  then have r6: "fst ex_req = Inr (theComputed ex_req)" by (rule theComputed_eq)
  have k1: "cached (collectionCaches ex_flipped) (slot (theComputed ex_root)) = None" by code_simp
  have k2: "cached (collectionCaches ex_flipped) (slot (theComputed ex_import)) = None" by code_simp
  have k3: "cached (collectionCaches ex_flipped) (slot (theComputed ex_c0)) = None" by code_simp
  have k4: "cached (requestCaches ex_flipped) (slot (theComputed ex_h0)) = None" by code_simp
  have k5: "cached (collectionCaches ex_flipped) (slot (theComputed ex_child)) = None" by code_simp
  have k6: "cached (requestCaches ex_flipped) (slot (theComputed ex_req)) = None" by code_simp
  have s1: "cached (collectionCaches ex_stale) (slot (theComputed ex_c0)) =
              Some (ok \<lparr> WorkspaceCollection.providerID = this_providerID, workspaceID = ''personal'',
                         collectionID = ''0'', name = ''a'' \<rparr>)"
    by code_simp
  have s2: "cached (requestCaches ex_stale) (slot (theComputed ex_h0)) = Some (CellValue 0)"
    by code_simp
  note t1 = issued_handle_checks_owner_when_evaluated [where S = arrayStore
      and wh = "theWorkspace ex_ws" and s = "snd ex_c0" and w = ex_flipped
      and nc = exampleNewCollection and cs = "[exampleCollection ''i'' []]"
      and ch = "theHandle ex_c0" and nr = 1]
  note t2 = issued_handle_checks_owner_when_evaluated [where S = arrayStore
      and wh = "theWorkspace ex_ws" and s = "snd ex_h2" and w = ex_flipped and cID = "''0''"]
  note t3 = issued_handle_checks_owner_when_evaluated [where S = arrayStore
      and wh = "theWorkspace ex_ws" and s = "snd ex_ws" and w = ex_flipped and rID = "''0/0''"]
  note t4 = issued_handle_checks_owner_when_evaluated [where S = arrayStore
      and wh = "theWorkspace ex_ws" and s = "snd ex_h2" and w = ex_stale and cID = "''0''"]
  note t5 = issued_handle_checks_owner_when_evaluated [where S = arrayStore
      and wh = "theWorkspace ex_ws" and s = "snd ex_ws" and w = ex_stale and rID = "''0/0''"]
  have a1: "read (theComputed ex_root) ex_flipped = invalid ''WORKSPACE_INVALIDATED''"
    using w r1 k1 t1 [folded ex_root_def] by metis
  have a2: "read (theComputed ex_import) ex_flipped = invalid ''WORKSPACE_INVALIDATED''"
    using w r2 k2 t1 [folded ex_import_def] by metis
  have a3: "read (theComputed ex_c0) ex_flipped = invalid ''WORKSPACE_INVALIDATED''"
    using w r3 k3 t2 [folded ex_c0_def] by metis
  have a4: "read (theComputed ex_h0) ex_flipped = invalid ''WORKSPACE_INVALIDATED''"
    using w r4 k4 t3 [folded ex_h0_def] by metis
  have a5: "read (theComputed ex_child) ex_flipped = invalid ''COLLECTION_INVALIDATED''"
    using c r5 k5 t1 [folded ex_child_def] by metis
  have a6: "read (theComputed ex_req) ex_flipped = invalid ''COLLECTION_INVALIDATED''"
    using c r6 k6 t1 [folded ex_req_def] by metis
  have b1: "read (theComputed ex_c0) ex_stale =
              ok \<lparr> WorkspaceCollection.providerID = this_providerID, workspaceID = ''personal'',
                   collectionID = ''0'', name = ''a'' \<rparr>"
    using r3 s1 t4 [folded ex_c0_def] by metis
  have b2: "read (theComputed ex_h0) ex_stale = deref (CellValue 0) ex_stale"
    using r4 s2 t5 [folded ex_h0_def] by metis
  show ?thesis
    using w c r1 r2 r3 r4 r5 r6 k1 k2 k3 k4 k5 k6 a1 a2 a3 a4 a5 a6 s1 b1 s2 b2
    by blast
qed

text \<open>
  The claim of C3 as it was made: whenever the workspace handle (or parent collection handle) a handle was
  derived from no longer passes the validity check, reading the issued handle yields
  \<open>{type: "invalid"}\<close>, and never an \<open>ok\<close> value. The handles are computed refs, and a
  computed ref that has been read keeps the object its getter returned until the
  reactive system marks it dirty. The workspace handle is a shallow ref, so a write to
  the object it holds marks nothing dirty. In \<open>ex_stale\<close> the holder has read the
  collection handle of \<open>0\<close> and the request handle of \<open>0/0\<close>, and the workspace object
  has then been rewritten to an invalid value: the workspace handle fails the check, the
  getters of both handles would return \<open>WORKSPACE_INVALIDATED\<close>, and both handles still
  read \<open>ok\<close>.
\<close>

theorem issued_handle_checks_owner_when_evaluated_counterexample:
  "\<not> isl (fst ex_ws) \<and> \<not> isl (fst ex_c0) \<and> \<not> isl (fst ex_h0) \<and>
   isValidWorkspaceHandle (theWorkspace ex_ws) this_providerID ''personal'' (snd ex_c0) \<and>
   \<not> isValidWorkspaceHandle (theWorkspace ex_ws) this_providerID ''personal'' ex_stale \<and>
   getter (theComputed ex_c0) ex_stale = invalid ''WORKSPACE_INVALIDATED'' \<and>
   getter (theComputed ex_h0) ex_stale = invalid ''WORKSPACE_INVALIDATED'' \<and>
   theHandle ex_c0 ex_stale =
     ok \<lparr> WorkspaceCollection.providerID = this_providerID, workspaceID = ''personal'',
          collectionID = ''0'', name = ''a'' \<rparr> \<and>
   theHandle ex_h0 ex_stale =
     ok \<lparr> providerID = this_providerID, workspaceID = ''personal'',
          collectionID = ''0'', requestID = ''0/0'', request = 0 \<rparr>"
  by code_simp

section \<open>The personal workspace handle\<close>

lemma exec_workspaceRefs:
  "\<exists>more. workspaceRefs (exec S c s) = workspaceRefs s @ more"
  by (cases c)
     (simp_all add: createRESTRootCollection_def importRESTCollections_def
        getCollectionHandle_def getRequestHandle_def createRESTChildCollection_def
        createRESTRequest_def updateRESTCollection_def removeRESTCollection_def
        moveRESTCollection_def reorderRESTCollection_def updateRESTRequest_def
        removeRESTRequest_def moveRESTRequest_def reorderRESTRequest_def
        getWorkspaceHandle_def getPersonalWorkspaceHandle_def Let_def
        split: list.split option.split HandleState.split)

lemma execs_workspaceRefs:
  "\<exists>more. workspaceRefs (execs S calls s) = workspaceRefs s @ more"
proof (induction calls arbitrary: s)
  case Nil
  show ?case by (simp add: execs_def)
next
  case (Cons c calls)
  obtain m1 where m1: "workspaceRefs (exec S c s) = workspaceRefs s @ m1"
    using exec_workspaceRefs by blast
  obtain m2 where m2: "workspaceRefs (execs S calls (exec S c s)) = workspaceRefs (exec S c s) @ m2"
    using Cons.IH by blast
  show ?case using m1 m2 by (simp add: execs_def)
qed

text \<open>
  C8. \<open>getWorkspaceHandle\<close> returns \<open>Left("INVALID_WORKSPACE_ID")\<close> for every workspace ID
  other than \<open>personal\<close>, and changes nothing. For \<open>personal\<close> it returns a handle that
  reads \<open>ok\<close> with provider ID \<open>PERSONAL_WORKSPACE_PROVIDER\<close>, workspace ID \<open>personal\<close>
  and the name \<open>Personal Workspace\<close>, right away and after any sequence of calls of the
  provider, whatever their arguments and whether they succeed: no method of the provider
  writes to a workspace ref.
\<close>

theorem getWorkspaceHandle_personal_only:
  "(wID \<noteq> ''personal'' \<longrightarrow> getWorkspaceHandle wID s = (Inl INVALID_WORKSPACE_ID, s)) \<and>
   (\<exists>h. fst (getWorkspaceHandle ''personal'' s) = Inr h \<and>
        (\<forall>calls. h (execs S calls (snd (getWorkspaceHandle ''personal'' s))) =
                 ok \<lparr> Workspace.providerID = ''PERSONAL_WORKSPACE_PROVIDER'',
                      workspaceID = ''personal'',
                      name = ''Personal Workspace'' \<rparr>))"
proof -
  let ?s1 = "snd (getWorkspaceHandle ''personal'' s)"
  have refs: "workspaceRefs ?s1 = workspaceRefs s @
      [ok \<lparr> Workspace.providerID = ''PERSONAL_WORKSPACE_PROVIDER'', workspaceID = ''personal'',
            name = ''Personal Workspace'' \<rparr>]"
    by (simp add: getWorkspaceHandle_def getPersonalWorkspaceHandle_def this_providerID_def)
  have h: "fst (getWorkspaceHandle ''personal'' s) = Inr (\<lambda>w. workspaceRefs w ! length (workspaceRefs s))"
    by (simp add: getWorkspaceHandle_def getPersonalWorkspaceHandle_def)
  have reads: "workspaceRefs (execs S calls ?s1) ! length (workspaceRefs s) =
      ok \<lparr> Workspace.providerID = ''PERSONAL_WORKSPACE_PROVIDER'', workspaceID = ''personal'',
           name = ''Personal Workspace'' \<rparr>" for calls
  proof -
    obtain more where "workspaceRefs (execs S calls ?s1) = workspaceRefs ?s1 @ more"
      using execs_workspaceRefs by blast
    then show ?thesis by (simp add: refs nth_append)
  qed
  show ?thesis
    using h reads by (simp add: getWorkspaceHandle_def)
qed

theorem getWorkspaceHandle_personal_only_witness:
  "''team'' \<noteq> ''personal'' \<and>
   getWorkspaceHandle ''team'' exampleState = (Inl INVALID_WORKSPACE_ID, exampleState) \<and>
   theWorkspace ex_ws
     (execs arrayStore
        [GetRequestHandle (theWorkspace ex_ws) ''0/0'',
         RemoveRESTRequest (theHandle ex_h0),
         GetWorkspaceHandle ''personal'',
         RemoveRESTCollection (theHandle ex_c0)]
        (snd ex_ws)) =
     ok \<lparr> Workspace.providerID = ''PERSONAL_WORKSPACE_PROVIDER'',
          workspaceID = ''personal'',
          name = ''Personal Workspace'' \<rparr>"
proof -
  have n: "''team'' \<noteq> ''personal''" by simp
  obtain h where h: "fst ex_ws = Inr h"
    and reads: "\<And>calls. h (execs arrayStore calls (snd ex_ws)) =
                 ok \<lparr> Workspace.providerID = ''PERSONAL_WORKSPACE_PROVIDER'',
                      workspaceID = ''personal'',
                      name = ''Personal Workspace'' \<rparr>"
    using getWorkspaceHandle_personal_only [of "''team''" exampleState arrayStore]
    unfolding ex_ws_def by blast
  have "theWorkspace ex_ws = h" using h by (simp add: theWorkspace_def)
  then show ?thesis
    using n reads getWorkspaceHandle_personal_only [of "''team''" exampleState arrayStore]
    by simp
qed

section \<open>Identities are index paths\<close>

text \<open>
  C7. A collection created at the root gets, as its \<open>collectionID\<close>, the decimal string of
  the length the root array had before the store inserted it: its zero-based position.
  A request created under the collection with ID \<open>C\<close> gets the \<open>requestID\<close> \<open>C/i\<close>,
  where \<open>i\<close> is the insertion index the store returned, and the \<open>collectionID\<close> \<open>C\<close>;
  this is what the fresh cell holds and what the returned handle yields while the parent
  handle is valid. The returned handle keeps no value when it is returned, and a read of
  a handle that keeps no value yields what its getter yields.
\<close>

theorem identities_are_index_paths:
  "(isValidWorkspaceHandle wh this_providerID ''personal'' s \<longrightarrow>
      (\<exists>h. fst (createRESTRootCollection S wh nc s) = Inr h \<and>
           (\<forall>w. isValidWorkspaceHandle wh this_providerID ''personal'' w \<longrightarrow>
                (\<exists>d. getter h w = ok d \<and>
                     WorkspaceCollection.collectionID d =
                       string_of_nat (length (restCollectionState s)))) \<and>
           cached (collectionCaches (snd (createRESTRootCollection S wh nc s))) (slot h) = None \<and>
           (\<forall>w. cached (collectionCaches w) (slot h) = None \<longrightarrow> read h w = getter h w))) \<and>
   (isValidCollectionHandle ch this_providerID ''personal'' s \<longrightarrow>
      (\<exists>h. fst (createRESTRequest S ch nr s) = Inr h \<and>
           restCollectionState (snd (createRESTRequest S ch nr s)) =
             snd (saveRESTRequestAs S (WorkspaceCollection.collectionID (data (ch s))) nr
                    (restCollectionState s)) \<and>
           (\<exists>d. handleRefData (snd (createRESTRequest S ch nr s)) ! length (handleRefData s) = ok d \<and>
                collectionID d = WorkspaceCollection.collectionID (data (ch s)) \<and>
                requestID d =
                  WorkspaceCollection.collectionID (data (ch s)) @ ''/'' @
                  string_of_nat
                    (fst (saveRESTRequestAs S (WorkspaceCollection.collectionID (data (ch s))) nr
                            (restCollectionState s))) \<and>
                request d = nr) \<and>
           (\<forall>w. isValidCollectionHandle ch this_providerID ''personal'' w \<longrightarrow>
                getter h w = handleRefData w ! length (handleRefData s)) \<and>
           cached (requestCaches (snd (createRESTRequest S ch nr s))) (slot h) = None \<and>
           (\<forall>w. cached (requestCaches w) (slot h) = None \<longrightarrow> read h w = getter h w)))"
  by (simp add: createRESTRootCollection_def createRESTRequest_def Let_def
      computedCollection_read computedRequest_read)

theorem identities_are_index_paths_witness:
  "isValidWorkspaceHandle (theWorkspace ex_ws) this_providerID ''personal'' (snd ex_c0) \<and>
   isValidCollectionHandle (theHandle ex_c0) this_providerID ''personal'' (snd ex_c0) \<and>
   isValidWorkspaceHandle (theWorkspace ex_ws) this_providerID ''personal'' (snd ex_root) \<and>
   isValidCollectionHandle (theHandle ex_c0) this_providerID ''personal'' (snd ex_req) \<and>
   length (restCollectionState (snd ex_c0)) = 2 \<and>
   WorkspaceCollection.collectionID (data (theHandle ex_root (snd ex_root))) = ''2'' \<and>
   navigate (restCollectionState (snd ex_root)) (parsePath ''2'') = Some (exampleCollection ''c'' []) \<and>
   requestsAt (restCollectionState (snd ex_c0)) ''0'' = [0, 1, 2] \<and>
   requestID (data (theHandle ex_req (snd ex_req))) = ''0/3'' \<and>
   requestsAt (restCollectionState (snd ex_req)) ''0'' = [0, 1, 2, 1]"
proof -
  have v1: "isValidWorkspaceHandle (theWorkspace ex_ws) this_providerID ''personal'' (snd ex_c0)"
    by code_simp
  have v2: "isValidCollectionHandle (theHandle ex_c0) this_providerID ''personal'' (snd ex_c0)"
    by code_simp
  have v3: "isValidWorkspaceHandle (theWorkspace ex_ws) this_providerID ''personal'' (snd ex_root)"
    by code_simp
  have v4: "isValidCollectionHandle (theHandle ex_c0) this_providerID ''personal'' (snd ex_req)"
    by code_simp
  have e1: "length (restCollectionState (snd ex_c0)) = 2" by code_simp
  have e2: "string_of_nat 2 = ''2''" by code_simp
  have e3: "navigate (restCollectionState (snd ex_root)) (parsePath ''2'') = Some (exampleCollection ''c'' [])"
    by code_simp
  have e4: "requestsAt (restCollectionState (snd ex_c0)) ''0'' = [0, 1, 2]" by code_simp
  have e5: "requestsAt (restCollectionState (snd ex_req)) ''0'' = [0, 1, 2, 1]" by code_simp
  have e6: "WorkspaceCollection.collectionID (data (theHandle ex_c0 (snd ex_c0))) = ''0''" by code_simp
  have e7: "fst (saveRESTRequestAs arrayStore ''0'' 1 (restCollectionState (snd ex_c0))) = 3" by code_simp
  have e8: "string_of_nat 3 = ''3''" by code_simp
  have e9: "length (handleRefData (snd ex_c0)) = 3" by code_simp
  note t = identities_are_index_paths [where S = arrayStore and wh = "theWorkspace ex_ws"
      and ch = "theHandle ex_c0" and s = "snd ex_c0" and nc = exampleNewCollection and nr = 1,
      folded ex_root_def ex_req_def]
  obtain h where h: "fst ex_root = Inr h"
    and hr: "\<And>w. isValidWorkspaceHandle (theWorkspace ex_ws) this_providerID ''personal'' w \<Longrightarrow>
                \<exists>d. getter h w = ok d \<and> WorkspaceCollection.collectionID d = string_of_nat (length (restCollectionState (snd ex_c0)))"
    and hf: "cached (collectionCaches (snd ex_root)) (slot h) = None"
    and hg: "\<And>w. cached (collectionCaches w) (slot h) = None \<Longrightarrow> read h w = getter h w"
    using t v1 by blast
  have h': "theHandle ex_root = read h" using h by (simp add: theHandle_def theComputed_def)
  have a: "WorkspaceCollection.collectionID (data (theHandle ex_root (snd ex_root))) = ''2''"
    using hr [OF v3] hg [OF hf] h' e1 e2 by auto
  obtain g where g: "fst ex_req = Inr g"
    and gd: "\<exists>d. handleRefData (snd ex_req) ! length (handleRefData (snd ex_c0)) = ok d \<and>
                requestID d =
                  WorkspaceCollection.collectionID (data (theHandle ex_c0 (snd ex_c0))) @ ''/'' @
                  string_of_nat (fst (saveRESTRequestAs arrayStore
                       (WorkspaceCollection.collectionID (data (theHandle ex_c0 (snd ex_c0)))) 1
                       (restCollectionState (snd ex_c0))))"
    and gr: "\<And>w. isValidCollectionHandle (theHandle ex_c0) this_providerID ''personal'' w \<Longrightarrow>
                getter g w = handleRefData w ! length (handleRefData (snd ex_c0))"
    and gf: "cached (requestCaches (snd ex_req)) (slot g) = None"
    and gg: "\<And>w. cached (requestCaches w) (slot g) = None \<Longrightarrow> read g w = getter g w"
    using t v2 by blast
  have g': "theHandle ex_req = read g" using g by (simp add: theHandle_def theComputed_def)
  have b: "requestID (data (theHandle ex_req (snd ex_req))) = ''0/3''"
    using gd gr [OF v4] gg [OF gf] g' e6 e7 e8 by auto
  show ?thesis using v1 v2 v3 v4 e1 a e3 e4 b e5 by blast
qed

section \<open>No two valid entries share a key\<close>

lemma issuedKeys_append_cell:
  "list_all (\<lambda>a. a < length cells) issued \<Longrightarrow>
   issuedKeys (cells @ [c]) issued = issuedKeys cells issued"
  by (induction issued) (simp_all add: issuedKeys_def nth_append)

lemma issuedKeys_snoc:
  "issuedKeys (cells @ [ok d]) (issued @ [length cells]) =
   issuedKeys (cells @ [ok d]) issued @ [keyOf d]"
  by (simp add: issuedKeys_def)

lemma handleIsAlreadyIssued_iff:
  "handleIsAlreadyIssued cells issued pID wID cID rID \<longleftrightarrow>
   (pID, wID, cID, rID) \<in> set (issuedKeys cells issued)"
  by (induction issued)
     (auto simp: handleIsAlreadyIssued_def issuedKeys_def keyOf_def split: HandleState.splits)

lemma push_keeps_invariant:
  assumes "registryAllocated s" and "noDuplicateKeys s"
    and "cells = handleRefData s @ [ok d]"
    and "issued = (if \<not> handleIsAlreadyIssued cells (issuedHandles s)
                         (providerID d) (workspaceID d) (collectionID d) (requestID d)
                   then issuedHandles s @ [length (handleRefData s)] else issuedHandles s)"
  shows "list_all (\<lambda>a. a < length cells) issued \<and> distinct (issuedKeys cells issued) \<and>
         (issued = issuedHandles s \<and>
            keyOf d \<in> set (issuedKeys (handleRefData s) (issuedHandles s)) \<or>
          issued = issuedHandles s @ [length (handleRefData s)] \<and>
            keyOf d \<notin> set (issuedKeys (handleRefData s) (issuedHandles s)))"
proof -
  have alloc: "list_all (\<lambda>a. a < length (handleRefData s)) (issuedHandles s)"
    using assms(1) by (simp add: registryAllocated_def)
  have keys: "issuedKeys cells (issuedHandles s) = issuedKeys (handleRefData s) (issuedHandles s)"
    using alloc assms(3) by (simp add: issuedKeys_append_cell)
  have d0: "distinct (issuedKeys cells (issuedHandles s))"
    using assms(2) keys by (simp add: noDuplicateKeys_def)
  have a1: "list_all (\<lambda>a. a < length cells) (issuedHandles s)"
    using alloc assms(3) by (auto simp: list_all_iff)
  show ?thesis
  proof (cases "handleIsAlreadyIssued cells (issuedHandles s)
                         (providerID d) (workspaceID d) (collectionID d) (requestID d)")
    case True
    then have "keyOf d \<in> set (issuedKeys cells (issuedHandles s))"
      by (simp add: handleIsAlreadyIssued_iff keyOf_def)
    then show ?thesis using True assms(4) d0 a1 keys by simp
  next
    case False
    then have notin: "keyOf d \<notin> set (issuedKeys cells (issuedHandles s))"
      by (simp add: handleIsAlreadyIssued_iff keyOf_def)
    have "issuedKeys cells issued = issuedKeys cells (issuedHandles s) @ [keyOf d]"
      using False assms(3,4) issuedKeys_snoc [of "handleRefData s" d "issuedHandles s"] by simp
    then show ?thesis using False assms(3,4) d0 a1 notin keys by simp
  qed
qed

text \<open>
  C9. Let the registry's entries be allocated cells and let no composite key
  (providerID, workspaceID, collectionID, requestID) occur twice among its valid entries.
  Then the same holds after \<open>createRESTRequest\<close> and after \<open>getRequestHandle\<close>, whether
  they succeed or fail. Each of them leaves the registry as it is or appends one entry,
  the fresh cell, and it appends only when the fresh cell's key is the key of no valid
  entry.
\<close>

theorem no_duplicate_issued_keys:
  assumes "registryAllocated s" and "noDuplicateKeys s"
  shows "registryAllocated (snd (createRESTRequest S ch nr s)) \<and>
         noDuplicateKeys (snd (createRESTRequest S ch nr s)) \<and>
         (issuedHandles (snd (createRESTRequest S ch nr s)) = issuedHandles s \<or>
          issuedHandles (snd (createRESTRequest S ch nr s)) =
            issuedHandles s @ [length (handleRefData s)] \<and>
          (\<exists>d. handleRefData (snd (createRESTRequest S ch nr s)) ! length (handleRefData s) = ok d \<and>
               keyOf d \<notin> set (issuedKeys (handleRefData s) (issuedHandles s)))) \<and>
         registryAllocated (snd (getRequestHandle S wh rID s)) \<and>
         noDuplicateKeys (snd (getRequestHandle S wh rID s)) \<and>
         (issuedHandles (snd (getRequestHandle S wh rID s)) = issuedHandles s \<or>
          issuedHandles (snd (getRequestHandle S wh rID s)) =
            issuedHandles s @ [length (handleRefData s)] \<and>
          (\<exists>d. handleRefData (snd (getRequestHandle S wh rID s)) ! length (handleRefData s) = ok d \<and>
               keyOf d \<notin> set (issuedKeys (handleRefData s) (issuedHandles s))))"
proof -
  have push: "list_all (\<lambda>a. a < length (handleRefData s @ [ok \<lparr> providerID = p, workspaceID = w, collectionID = c, requestID = r, request = q \<rparr>]))
                (if \<not> handleIsAlreadyIssued (handleRefData s @ [ok \<lparr> providerID = p, workspaceID = w, collectionID = c, requestID = r, request = q \<rparr>])
                         (issuedHandles s) p w c r
                 then issuedHandles s @ [length (handleRefData s)] else issuedHandles s) \<and>
              distinct (issuedKeys (handleRefData s @ [ok \<lparr> providerID = p, workspaceID = w, collectionID = c, requestID = r, request = q \<rparr>])
                (if \<not> handleIsAlreadyIssued (handleRefData s @ [ok \<lparr> providerID = p, workspaceID = w, collectionID = c, requestID = r, request = q \<rparr>])
                         (issuedHandles s) p w c r
                 then issuedHandles s @ [length (handleRefData s)] else issuedHandles s)) \<and>
              (handleIsAlreadyIssued (handleRefData s @ [ok \<lparr> providerID = p, workspaceID = w, collectionID = c, requestID = r, request = q \<rparr>])
                         (issuedHandles s) p w c r \<or>
               keyOf \<lparr> providerID = p, workspaceID = w, collectionID = c, requestID = r, request = q \<rparr>
                 \<notin> set (issuedKeys (handleRefData s) (issuedHandles s)))"
    for p w c r q
    using push_keeps_invariant [OF assms refl refl,
        where d = "\<lparr> providerID = p, workspaceID = w, collectionID = c, requestID = r, request = q \<rparr>"]
    by (auto split: if_splits)
  have c: "registryAllocated (snd (createRESTRequest S ch nr s)) \<and>
         noDuplicateKeys (snd (createRESTRequest S ch nr s)) \<and>
         (issuedHandles (snd (createRESTRequest S ch nr s)) = issuedHandles s \<or>
          issuedHandles (snd (createRESTRequest S ch nr s)) =
            issuedHandles s @ [length (handleRefData s)] \<and>
          (\<exists>d. handleRefData (snd (createRESTRequest S ch nr s)) ! length (handleRefData s) = ok d \<and>
               keyOf d \<notin> set (issuedKeys (handleRefData s) (issuedHandles s))))"
  proof (cases "isValidCollectionHandle ch this_providerID ''personal'' s")
    case False
    then show ?thesis using assms by (simp add: createRESTRequest_def)
  next
    case True
    let ?c = "WorkspaceCollection.collectionID (data (ch s))"
    show ?thesis
      using True
        push [of "WorkspaceCollection.providerID (data (ch s))"
                 "WorkspaceCollection.workspaceID (data (ch s))" ?c
                 "?c @ ''/'' @ string_of_nat (fst (saveRESTRequestAs S ?c nr (restCollectionState s)))"
                 nr]
      by (auto simp: createRESTRequest_def Let_def registryAllocated_def noDuplicateKeys_def)
  qed
  have g: "registryAllocated (snd (getRequestHandle S wh rID s)) \<and>
         noDuplicateKeys (snd (getRequestHandle S wh rID s)) \<and>
         (issuedHandles (snd (getRequestHandle S wh rID s)) = issuedHandles s \<or>
          issuedHandles (snd (getRequestHandle S wh rID s)) =
            issuedHandles s @ [length (handleRefData s)] \<and>
          (\<exists>d. handleRefData (snd (getRequestHandle S wh rID s)) ! length (handleRefData s) = ok d \<and>
               keyOf d \<notin> set (issuedKeys (handleRefData s) (issuedHandles s))))"
  proof (cases "fst (getRequestHandle S wh rID s)")
    case (Inl e)
    then have "snd (getRequestHandle S wh rID s) = s"
      by (auto simp: getRequestHandle_def Let_def split: if_splits option.splits)
    then show ?thesis using assms by simp
  next
    case (Inr h)
    let ?p = "Workspace.providerID (data (wh s))"
    let ?w = "Workspace.workspaceID (data (wh s))"
    let ?c = "join_str ''/'' (butlast (split_str CHR ''/'' rID))"
    let ?cells = "\<lambda>q. handleRefData s @
        [ok \<lparr> providerID = ?p, workspaceID = ?w, collectionID = ?c, requestID = rID, request = q \<rparr>]"
    from Inr obtain q where eq: "snd (getRequestHandle S wh rID s) =
        s \<lparr> handleRefData := ?cells q,
            issuedHandles :=
              (if \<not> handleIsAlreadyIssued (?cells q) (issuedHandles s) ?p ?w ?c rID
               then issuedHandles s @ [length (handleRefData s)] else issuedHandles s),
            requestCaches := requestCaches s @ [None] \<rparr>"
      by (auto simp: getRequestHandle_def Let_def split: if_splits option.splits)
    show ?thesis
      unfolding eq using push [of ?p ?w ?c rID q]
      by (auto simp: registryAllocated_def noDuplicateKeys_def)
  qed
  show ?thesis using c g by blast
qed

theorem no_duplicate_issued_keys_witness:
  "registryAllocated (snd ex_c0) \<and> noDuplicateKeys (snd ex_c0) \<and>
   issuedHandles (snd ex_c0) = [0, 1, 2] \<and>
   noDuplicateKeys (snd ex_req) \<and>
   issuedHandles (snd ex_req) = [0, 1, 2, 3] \<and>
   noDuplicateKeys (snd (getRequestHandle arrayStore (theWorkspace ex_ws) ''0/1'' (snd ex_c0))) \<and>
   issuedHandles (snd (getRequestHandle arrayStore (theWorkspace ex_ws) ''0/1'' (snd ex_c0))) = [0, 1, 2]"
proof -
  have a: "registryAllocated (snd ex_c0)" by code_simp
  have n: "noDuplicateKeys (snd ex_c0)" by code_simp
  have i0: "issuedHandles (snd ex_c0) = [0, 1, 2]" by code_simp
  have i1: "issuedHandles (snd ex_req) = [0, 1, 2, 3]" by code_simp
  have i2: "issuedHandles (snd (getRequestHandle arrayStore (theWorkspace ex_ws) ''0/1'' (snd ex_c0))) = [0, 1, 2]"
    by code_simp
  note t = no_duplicate_issued_keys [OF a n, where S = arrayStore and ch = "theHandle ex_c0"
      and nr = 1 and wh = "theWorkspace ex_ws" and rID = "''0/1''", folded ex_req_def]
  show ?thesis using a n i0 i1 i2 t by blast
qed

section \<open>Updating a request\<close>

lemma map_of_merge:
  "map_of (merge obj src) f =
     (case map_of (rev src) f of Some v \<Rightarrow> Some v | None \<Rightarrow> map_of obj f)"
proof (induction src arbitrary: obj)
  case Nil
  show ?case by (simp add: merge_def)
next
  case (Cons kv src)
  have step: "merge obj (kv # src) = merge (AList.update (fst kv) (snd kv) obj) src"
    by (simp add: merge_def)
  show ?case
    unfolding step Cons.IH
    by (cases kv) (auto simp: update_conv' map_add_def split: option.splits)
qed


lemma renameRequest_length [simp]:
  "length (renameRequest cells rID r a objs) = length objs"
  by (simp add: renameRequest_def split: HandleState.split)

lemma fold_renameRequest_length [simp]:
  "length (fold (renameRequest cells rID r) issued objs) = length objs"
  by (induction issued arbitrary: objs) simp_all








section \<open>Removing a collection\<close>

lemma invalidateUnder_length [simp]:
  "length (invalidateUnder cID a cells) = length cells"
  by (simp add: invalidateUnder_def split: HandleState.split)

lemma invalidateUnder_nth:
  "i < length cells \<Longrightarrow>
   invalidateUnder cID a cells ! i =
     (case cells ! i of
        invalid r \<Rightarrow> invalid r
      | ok d \<Rightarrow> if i = a \<and> startsWith (requestID d) cID
                then invalid ''REQUEST_INVALIDATED'' else ok d)"
  by (cases "i = a") (auto simp: invalidateUnder_def split: HandleState.split)

lemma fold_invalidateUnder_nth:
  "i < length cells \<Longrightarrow>
   fold (invalidateUnder cID) as cells ! i =
     (case cells ! i of
        invalid r \<Rightarrow> invalid r
      | ok d \<Rightarrow> if i \<in> set as \<and> startsWith (requestID d) cID
                then invalid ''REQUEST_INVALIDATED'' else ok d)"
proof (induction as arbitrary: cells)
  case Nil
  then show ?case by (simp split: HandleState.split)
next
  case (Cons a as)
  have len: "i < length (invalidateUnder cID a cells)" using Cons.prems by simp
  show ?case
    using Cons.IH [OF len] invalidateUnder_nth [OF Cons.prems, of cID a]
    by (auto split: HandleState.split)
qed

text \<open>
  What \<open>removeRESTCollection\<close> does to a cell, for every store: a valid cell of the
  registry is invalidated exactly when its request ID starts, as a string, with the ID of
  the removed collection; no cell is rewritten in any other way.
\<close>

lemma removeRESTCollection_cells:
  assumes "isValidCollectionHandle collectionHandle this_providerID ''personal'' s"
    and "a < length (handleRefData s)"
  shows "handleRefData (snd (removeRESTCollection S collectionHandle s)) ! a =
           (case handleRefData s ! a of
              invalid r \<Rightarrow> invalid r
            | ok d \<Rightarrow>
                if a \<in> set (issuedHandles s) \<and>
                   startsWith (requestID d)
                     (WorkspaceCollection.collectionID (data (collectionHandle s)))
                then invalid ''REQUEST_INVALIDATED''
                else ok d)"
  using assms
  by (simp add: removeRESTCollection_def Let_def fold_invalidateUnder_nth)

text \<open>
  C1 fails on the code. \<open>removeRESTCollection\<close> decides by
  \<open>requestID.startsWith(collectionID)\<close>, a test on the characters of the two strings and
  not on their segments. In the workspace of eleven collections the handle to request
  \<open>10/0\<close> is valid; \<open>10/0\<close> does not lie inside the subtree of collection \<open>1\<close>; removing
  collection \<open>1\<close> succeeds and moves the request, untouched, to position \<open>9/0\<close>; and the
  handle reads \<open>{type: "invalid", reason: "REQUEST_INVALIDATED"}\<close> afterwards.
\<close>

theorem removeRESTCollection_invalidates_outside_subtree:
  "theHandle ex11_h (snd ex11_c) =
     ok \<lparr> providerID = ''PERSONAL_WORKSPACE_PROVIDER'', workspaceID = ''personal'',
          collectionID = ''10'', requestID = ''10/0'', request = 0 \<rparr> \<and>
   WorkspaceCollection.collectionID (data (theHandle ex11_c (snd ex11_c))) = ''1'' \<and>
   \<not> inSubtree ''10/0'' ''1'' \<and>
   requestsAt (restCollectionState (snd ex11_c)) ''10'' = [0] \<and>
   fst ex11_removed = Inr () \<and>
   requestsAt (restCollectionState (snd ex11_removed)) ''9'' = [0] \<and>
   theHandle ex11_h (snd ex11_removed) = invalid ''REQUEST_INVALIDATED''"
  by code_simp

section \<open>Moving a request\<close>

text \<open>
  C2 fails on the code. \<open>moveRESTRequest\<close> takes the IDs of the requests below the moved
  one from \<open>affectedReqIndexRange + idx\<close>, where \<open>affectedReqIndexRange\<close> is their
  number, and not from the index of the moved request. In the example collection \<open>0\<close>
  holds three requests with handles \<open>0/0\<close>, \<open>0/1\<close> and \<open>0/2\<close>, and request \<open>0/0\<close> is moved
  to collection \<open>1\<close>. The affected IDs are computed as \<open>0/2\<close> and \<open>0/3\<close>: the moved
  handle becomes \<open>1/0\<close>, the handle \<open>0/2\<close> becomes \<open>0/1\<close>, and the handle \<open>0/1\<close>, whose
  request is now the first of collection \<open>0\<close>, stays \<open>0/1\<close>.
\<close>

theorem moveRESTRequest_misses_follower:
  "handleRefData (snd ex_h2) =
     [ok \<lparr> providerID = ''PERSONAL_WORKSPACE_PROVIDER'', workspaceID = ''personal'',
           collectionID = ''0'', requestID = ''0/0'', request = 0 \<rparr>,
      ok \<lparr> providerID = ''PERSONAL_WORKSPACE_PROVIDER'', workspaceID = ''personal'',
           collectionID = ''0'', requestID = ''0/1'', request = 1 \<rparr>,
      ok \<lparr> providerID = ''PERSONAL_WORKSPACE_PROVIDER'', workspaceID = ''personal'',
           collectionID = ''0'', requestID = ''0/2'', request = 2 \<rparr>] \<and>
   issuedHandles (snd ex_h2) = [0, 1, 2] \<and>
   requestsAt (restCollectionState (snd ex_h2)) ''0'' = [0, 1, 2] \<and>
   affectedRequestIDs ''0'' (Some 2) = [''0/2'', ''0/3''] \<and>
   fst ex_moved = Inr () \<and>
   requestsAt (restCollectionState (snd ex_moved)) ''0'' = [1, 2] \<and>
   requestsAt (restCollectionState (snd ex_moved)) ''1'' = [0] \<and>
   handleRefData (snd ex_moved) =
     [ok \<lparr> providerID = ''PERSONAL_WORKSPACE_PROVIDER'', workspaceID = ''personal'',
           collectionID = ''1'', requestID = ''1/0'', request = 0 \<rparr>,
      ok \<lparr> providerID = ''PERSONAL_WORKSPACE_PROVIDER'', workspaceID = ''personal'',
           collectionID = ''0'', requestID = ''0/1'', request = 1 \<rparr>,
      ok \<lparr> providerID = ''PERSONAL_WORKSPACE_PROVIDER'', workspaceID = ''personal'',
           collectionID = ''0'', requestID = ''0/1'', request = 2 \<rparr>]"
  by code_simp

section \<open>Reordering\<close>

lemma reorder_keeps_registry:
  "handleRefData (snd (reorderRESTRequest S rh d dr s)) = handleRefData s \<and>
   issuedHandles (snd (reorderRESTRequest S rh d dr s)) = issuedHandles s \<and>
   handleRefData (snd (reorderRESTCollection S ch dc s)) = handleRefData s \<and>
   issuedHandles (snd (reorderRESTCollection S ch dc s)) = issuedHandles s"
  by (simp add: reorderRESTRequest_def reorderRESTCollection_def Let_def)

text \<open>
  C6 fails on the code. \<open>reorderRESTRequest\<close> and \<open>reorderRESTCollection\<close> pass the
  reorder to the store and return; they never look at the registry
  (\<open>reorder_keeps_registry\<close>: for every store, no cell and no entry changes). In the
  example the request \<open>0/1\<close> is dragged in front of the request \<open>0/0\<close>: the store then
  holds the request objects in the order 1, 0, 2, while the handle with request ID \<open>0/0\<close>
  still refers to object 0 and the handle with request ID \<open>0/1\<close> to object 1.
\<close>

theorem reorderRESTRequest_leaves_stale_handles:
  "handleRefData (snd ex_h2) =
     [ok \<lparr> providerID = ''PERSONAL_WORKSPACE_PROVIDER'', workspaceID = ''personal'',
           collectionID = ''0'', requestID = ''0/0'', request = 0 \<rparr>,
      ok \<lparr> providerID = ''PERSONAL_WORKSPACE_PROVIDER'', workspaceID = ''personal'',
           collectionID = ''0'', requestID = ''0/1'', request = 1 \<rparr>,
      ok \<lparr> providerID = ''PERSONAL_WORKSPACE_PROVIDER'', workspaceID = ''personal'',
           collectionID = ''0'', requestID = ''0/2'', request = 2 \<rparr>] \<and>
   issuedHandles (snd ex_h2) = [0, 1, 2] \<and>
   requestsAt (restCollectionState (snd ex_h2)) ''0'' = [0, 1, 2] \<and>
   fst ex_reordered = Inr () \<and>
   requestsAt (restCollectionState (snd ex_reordered)) ''0'' = [1, 0, 2] \<and>
   handleRefData (snd ex_reordered) = handleRefData (snd ex_h2) \<and>
   issuedHandles (snd ex_reordered) = issuedHandles (snd ex_h2)"
  by code_simp

section \<open>The registry stays allocated\<close>

text \<open>
  The first hypothesis of the theorem on duplicate keys is no restriction: every call of
  the provider, whatever its arguments and its outcome, keeps the entries of the registry
  among the allocated cells, and so does every sequence of calls from a state with an
  empty registry.
\<close>

lemma fold_invalidateUnder_length [simp]:
  "length (fold (invalidateUnder cID) as cells) = length cells"
  by (induction as arbitrary: cells) simp_all

lemma decrementAffected_length [simp]:
  "length (decrementAffected src issued rID cells) = length cells"
  by (simp add: decrementAffected_def Let_def split: option.split HandleState.split)

lemma fold_decrementAffected_length [simp]:
  "length (fold (decrementAffected src issued) ids cells) = length cells"
  by (induction ids arbitrary: cells) simp_all

lemma registryAllocated_grow:
  "registryAllocated s \<Longrightarrow>
   list_all (\<lambda>a. a < Suc (length (handleRefData s))) (issuedHandles s)"
  by (auto simp: registryAllocated_def list_all_iff)

lemma exec_registryAllocated:
  assumes "registryAllocated s"
  shows "registryAllocated (exec S c s)"
proof (cases c)
  case (CreateRESTRequest h r)
  then show ?thesis
    using assms registryAllocated_grow [OF assms]
    by (simp add: createRESTRequest_def Let_def registryAllocated_def)
next
  case (GetRequestHandle h r)
  then show ?thesis
    using assms registryAllocated_grow [OF assms]
    by (simp add: getRequestHandle_def Let_def registryAllocated_def split: option.split)
next
  case (MoveRESTRequest h d)
  then show ?thesis
    using assms
    by (simp add: moveRESTRequest_def Let_def registryAllocated_def
        split: option.split HandleState.split)
qed (use assms in \<open>simp_all add: createRESTRootCollection_def importRESTCollections_def
        getCollectionHandle_def createRESTChildCollection_def
        updateRESTCollection_def removeRESTCollection_def
        moveRESTCollection_def reorderRESTCollection_def updateRESTRequest_def
        removeRESTRequest_def reorderRESTRequest_def
        getWorkspaceHandle_def getPersonalWorkspaceHandle_def Let_def registryAllocated_def
        split: list.split option.split\<close>)

lemma execs_registryAllocated:
  "registryAllocated s \<Longrightarrow> registryAllocated (execs S calls s)"
  unfolding execs_def by (induction calls arbitrary: s) (simp_all add: exec_registryAllocated)

end
